theory Spec2Isabelle
  imports
    Main
    "HOL-Library.AList"
    "HOL-Library.Multiset"
    "HOL-Library.Char_ord"
    "HOL-Library.List_Lexorder"
begin

section \<open>The user model of sharebnb-backend (models/user.js)\<close>

text \<open>
  The class \<open>User\<close> of the repository is a set of static methods that send SQL text to a
  PostgreSQL client (\<open>db.query\<close>) and hash passwords with bcrypt. This theory embeds the
  storage as an explicit state value, every SQL statement of the source as a function on
  that state, and every method as a function that returns either an error or its result,
  together with the new state where the method writes.
\<close>

subsection \<open>Values, result rows and errors\<close>

text \<open>
  A value bound to a \<open>$n\<close> placeholder or found in a result row. The methods below are
  modelled for string-valued fields and integer ids; \<open>SqlNull\<close> is what the client
  sends for \<open>undefined\<close>.
\<close>

datatype sqlval = SqlNull | SqlInt int | SqlText string

text \<open>
  A result row is the JavaScript object the client builds: property names are the output
  column names, in the order of the select list. \<open>delete obj.key\<close> is \<open>AList.delete\<close>,
  \<open>obj.key\<close> is \<open>map_of obj key\<close> (with \<open>None\<close> for \<open>undefined\<close>).
\<close>

type_synonym row = "(string \<times> sqlval) list"

text \<open>
  The error classes of \<open>expressError\<close> that user.js throws, with their messages.
  \<open>ValidationError\<close> is the failure of the Partial-Update Builder; \<open>UnclassifiedError\<close>
  stands for any other exception (a rejected statement, a bcrypt argument error).
\<close>

datatype error =
    UnauthorizedError string
  | BadRequestError string
  | NotFoundError string
  | ValidationError
  | UnclassifiedError

text \<open>\<open>result.rows[0]\<close>: the first row, \<open>undefined\<close> on an empty result.\<close>

definition first_row :: "'a list \<Rightarrow> 'a option" where
  "first_row rows = (case rows of [] \<Rightarrow> None | r # _ \<Rightarrow> Some r)"

text \<open>The decimal text of a number, as the template literal \<open>${id}\<close> prints it.\<close>

definition digit_char :: "nat \<Rightarrow> char" where
  "digit_char d = char_of (48 + d)"

function string_of_nat :: "nat \<Rightarrow> string" where
  "string_of_nat n =
     (if n < 10 then [digit_char n] else string_of_nat (n div 10) @ [digit_char (n mod 10)])"
  by pat_completeness auto
termination
  by (relation "measure (\<lambda>n. n)") auto

declare string_of_nat.simps [simp del]

definition string_of_int :: "int \<Rightarrow> string" where
  "string_of_int i = (if i < 0 then CHR ''-'' # string_of_nat (nat (- i)) else string_of_nat (nat i))"

subsection \<open>Storage\<close>

text \<open>
  The tables, with the columns the statements of user.js name. No constraint of the schema
  (primary key, uniqueness, foreign key) is visible in the sources, and the model has none:
  the id of a new user comes from a sequence, as for a \<open>SERIAL\<close> column that the \<open>INSERT\<close>
  leaves out.
\<close>

record users_rec =
  u_id :: int
  u_username :: string
  u_password :: string
  u_first_name :: string
  u_last_name :: string
  u_email :: string

record listings_rec =
  l_id :: int
  l_owner_id :: int
  l_name :: string
  l_description :: string
  l_price :: int
  l_street :: string
  l_city :: string
  l_state :: string
  l_zip :: string
  l_genre :: string

record bookings_rec =
  b_id :: int
  b_owner_id :: int
  b_renter_id :: int
  b_listing_id :: int
  b_created_at :: int

record conversations_rec =
  c_id :: int
  c_renter_id :: int
  c_owner_id :: int
  c_listing_id :: int

record database =
  users_tbl :: "users_rec list"
  listings_tbl :: "listings_rec list"
  bookings_tbl :: "bookings_rec list"
  conversations_tbl :: "conversations_rec list"
  users_id_seq :: int

subsection \<open>The bcrypt library and the configuration\<close>

text \<open>
  bcrypt and \<open>config.js\<close> are not part of the sources; the methods take them as a parameter.
  \<open>bcrypt_hash env data rounds salt\<close> is \<open>bcrypt.hash(data, rounds)\<close>, where \<open>salt\<close>
  is the randomness that call draws; \<open>bcrypt_compare env data digest\<close> is
  \<open>bcrypt.compare(data, digest)\<close>.
\<close>

record bcrypt_env =
  bcrypt_hash :: "string \<Rightarrow> nat \<Rightarrow> nat \<Rightarrow> string"
  bcrypt_compare :: "string \<Rightarrow> string \<Rightarrow> bool"
  BCRYPT_WORK_FACTOR :: nat

subsection \<open>The statements of user.js\<close>

text \<open>
  Lines 109-116: \<open>SELECT id, username, password, first_name AS "firstName",
  last_name AS "lastName", email FROM users WHERE username = $1\<close>.
\<close>

definition authenticate_query :: "database \<Rightarrow> string \<Rightarrow> row list" where
  "authenticate_query db p1 =
     map (\<lambda>u. [(''id'', SqlInt (u_id u)),
               (''username'', SqlText (u_username u)),
               (''password'', SqlText (u_password u)),
               (''firstName'', SqlText (u_first_name u)),
               (''lastName'', SqlText (u_last_name u)),
               (''email'', SqlText (u_email u))])
         (filter (\<lambda>u. u_username u = p1) (users_tbl db))"

text \<open>Lines 143-145: \<open>SELECT username FROM users WHERE username = $1\<close>.\<close>

definition duplicate_query :: "database \<Rightarrow> string \<Rightarrow> row list" where
  "duplicate_query db p1 =
     map (\<lambda>u. [(''username'', SqlText (u_username u))])
         (filter (\<lambda>u. u_username u = p1) (users_tbl db))"

text \<open>
  Lines 157-169: \<open>INSERT INTO users (username, password, first_name, last_name, email)
  VALUES ($1, $2, $3, $4, $5) RETURNING id, username, first_name AS "firstName",
  last_name AS "lastName", email\<close>. One row is appended, with the next id of the sequence,
  and returned.
\<close>

definition insert_query ::
  "database \<Rightarrow> string \<Rightarrow> string \<Rightarrow> string \<Rightarrow> string \<Rightarrow> string \<Rightarrow> row list \<times> database" where
  "insert_query db p1 p2 p3 p4 p5 =
     (let u = \<lparr>u_id = users_id_seq db, u_username = p1, u_password = p2,
                u_first_name = p3, u_last_name = p4, u_email = p5\<rparr>
      in ([[(''id'', SqlInt (u_id u)),
            (''username'', SqlText (u_username u)),
            (''firstName'', SqlText (u_first_name u)),
            (''lastName'', SqlText (u_last_name u)),
            (''email'', SqlText (u_email u))]],
          db\<lparr>users_tbl := users_tbl db @ [u], users_id_seq := users_id_seq db + 1\<rparr>))"

text \<open>
  Lines 186-193: \<open>SELECT id, username, password, first_name as firstName,
  last_name as lastName, email FROM users ORDER BY username\<close>. The aliases are not quoted
  here, and PostgreSQL folds an unquoted identifier to lower case: the output columns are
  \<open>firstname\<close> and \<open>lastname\<close>. The order of the texts is modelled as the order
  of their character codes.
\<close>

definition getAll_query :: "database \<Rightarrow> row list" where
  "getAll_query db =
     map (\<lambda>u. [(''id'', SqlInt (u_id u)),
               (''username'', SqlText (u_username u)),
               (''password'', SqlText (u_password u)),
               (''firstname'', SqlText (u_first_name u)),
               (''lastname'', SqlText (u_last_name u)),
               (''email'', SqlText (u_email u))])
         (sort_key u_username (users_tbl db))"

text \<open>
  Lines 211-213: \<open>SELECT id, username, first_name AS firstName, last_name AS lastName,
  email FROM users WHERE username = $1\<close>, with unquoted aliases again.
\<close>

definition get_user_query :: "database \<Rightarrow> string \<Rightarrow> row list" where
  "get_user_query db p1 =
     map (\<lambda>u. [(''id'', SqlInt (u_id u)),
               (''username'', SqlText (u_username u)),
               (''firstname'', SqlText (u_first_name u)),
               (''lastname'', SqlText (u_last_name u)),
               (''email'', SqlText (u_email u))])
         (filter (\<lambda>u. u_username u = p1) (users_tbl db))"

text \<open>
  Lines 220-223: \<open>SELECT id, name, description, price, street, city, state, zip, genre
  FROM listings WHERE owner_id = $1 ORDER BY id\<close>. A comparison with \<open>NULL\<close> (or with a
  text) selects nothing.
\<close>

definition listing_row :: "listings_rec \<Rightarrow> row" where
  "listing_row l =
     [(''id'', SqlInt (l_id l)),
      (''name'', SqlText (l_name l)),
      (''description'', SqlText (l_description l)),
      (''price'', SqlInt (l_price l)),
      (''street'', SqlText (l_street l)),
      (''city'', SqlText (l_city l)),
      (''state'', SqlText (l_state l)),
      (''zip'', SqlText (l_zip l)),
      (''genre'', SqlText (l_genre l))]"

definition listings_query :: "database \<Rightarrow> sqlval \<Rightarrow> row list" where
  "listings_query db p1 =
     map listing_row
       (sort_key l_id (filter (\<lambda>l. SqlInt (l_owner_id l) = p1) (listings_tbl db)))"

text \<open>
  Lines 229-232: \<open>SELECT id, owner_id, renter_id, listing_id, created_at FROM bookings
  WHERE renter_id = $1 ORDER BY id\<close>.
\<close>

definition booking_row :: "bookings_rec \<Rightarrow> row" where
  "booking_row b =
     [(''id'', SqlInt (b_id b)),
      (''owner_id'', SqlInt (b_owner_id b)),
      (''renter_id'', SqlInt (b_renter_id b)),
      (''listing_id'', SqlInt (b_listing_id b)),
      (''created_at'', SqlInt (b_created_at b))]"

definition bookings_query :: "database \<Rightarrow> sqlval \<Rightarrow> row list" where
  "bookings_query db p1 =
     map booking_row
       (sort_key b_id (filter (\<lambda>b. SqlInt (b_renter_id b) = p1) (bookings_tbl db)))"

text \<open>
  Lines 238-241: \<open>SELECT id, renter_id, owner_id, listing_id FROM conversations
  WHERE owner_id = $1 OR renter_id = $1 ORDER BY id\<close>.
\<close>

definition conversation_row :: "conversations_rec \<Rightarrow> row" where
  "conversation_row c =
     [(''id'', SqlInt (c_id c)),
      (''renter_id'', SqlInt (c_renter_id c)),
      (''owner_id'', SqlInt (c_owner_id c)),
      (''listing_id'', SqlInt (c_listing_id c))]"

definition conversations_query :: "database \<Rightarrow> sqlval \<Rightarrow> row list" where
  "conversations_query db p1 =
     map conversation_row
       (sort_key c_id
          (filter (\<lambda>c. SqlInt (c_owner_id c) = p1 \<or> SqlInt (c_renter_id c) = p1)
             (conversations_tbl db)))"

text \<open>
  Lines 272-278: \<open>UPDATE users SET ${setCols} WHERE id = ${idVarIdx} RETURNING id,
  first_name AS "firstName", last_name AS "lastName", email\<close>, the one statement whose
  text is built at run time. A fragment \<open>column = $n\<close> of the SET clause is the pair
  \<open>(column, n)\<close>. The statement is rejected when the SET clause is empty, names a column
  twice, names a column other than the text columns of \<open>users\<close> (for the id column this
  abstracts from the cast of a text to an integer), or refers to a parameter that was not
  bound. Otherwise every row whose id is the parameter \<open>idVarIdx\<close> gets the assignments,
  and the RETURNING list is read from the rows as updated.
\<close>

definition param_at :: "sqlval list \<Rightarrow> nat \<Rightarrow> sqlval option" where
  "param_at params n = (if 1 \<le> n \<and> n \<le> length params then Some (params ! (n - 1)) else None)"

definition text_columns :: "string list" where
  "text_columns = [''username'', ''password'', ''first_name'', ''last_name'', ''email'']"

definition set_column :: "string \<Rightarrow> string \<Rightarrow> users_rec \<Rightarrow> users_rec" where
  "set_column c v u =
     (if c = ''username'' then u\<lparr>u_username := v\<rparr>
      else if c = ''password'' then u\<lparr>u_password := v\<rparr>
      else if c = ''first_name'' then u\<lparr>u_first_name := v\<rparr>
      else if c = ''last_name'' then u\<lparr>u_last_name := v\<rparr>
      else if c = ''email'' then u\<lparr>u_email := v\<rparr>
      else u)"

definition assign :: "sqlval list \<Rightarrow> string \<times> nat \<Rightarrow> users_rec \<Rightarrow> users_rec" where
  "assign params frag u =
     (case param_at params (snd frag) of
        Some (SqlText v) \<Rightarrow> set_column (fst frag) v u
      | _ \<Rightarrow> u)"

definition fragment_ok :: "sqlval list \<Rightarrow> string \<times> nat \<Rightarrow> bool" where
  "fragment_ok params frag =
     (fst frag \<in> set text_columns \<and>
      (case param_at params (snd frag) of Some (SqlText v) \<Rightarrow> True | _ \<Rightarrow> False))"

definition returning_row :: "users_rec \<Rightarrow> row" where
  "returning_row u =
     [(''id'', SqlInt (u_id u)),
      (''firstName'', SqlText (u_first_name u)),
      (''lastName'', SqlText (u_last_name u)),
      (''email'', SqlText (u_email u))]"

definition update_query ::
  "database \<Rightarrow> (string \<times> nat) list \<Rightarrow> nat \<Rightarrow> sqlval list \<Rightarrow> error + (row list \<times> database)" where
  "update_query db setCols idVarIdx params =
     (if setCols \<noteq> [] \<and> list_all (fragment_ok params) setCols \<and> distinct (map fst setCols)
      then (case param_at params idVarIdx of
              Some (SqlInt i) \<Rightarrow>
                (let db' = db\<lparr>users_tbl :=
                             map (\<lambda>u. if u_id u = i then fold (assign params) setCols u else u)
                                 (users_tbl db)\<rparr>
                 in Inr (map returning_row (filter (\<lambda>u. u_id u = i) (users_tbl db')), db'))
            | _ \<Rightarrow> Inl UnclassifiedError)
      else Inl UnclassifiedError)"

subsection \<open>The Partial-Update Builder (helpers/sql.js)\<close>

text \<open>
  Modelled from the spec: \<open>sqlForPartialUpdate\<close> of \<open>helpers/sql.js\<close>, which user.js
  imports and the sources do not contain. Section 4.2: the input is a mapping from logical
  field name to new value and a translation table from logical names to column names
  (a field without an entry passes through unchanged); the output is the ordered list of
  \<open>column = $n\<close> fragments, one per provided field in the insertion order of the mapping,
  and the matching ordered list of bind values; an empty mapping fails with
  \<open>ValidationError\<close>.
\<close>

definition sqlForPartialUpdate ::
  "(string \<times> string) list \<Rightarrow> (string \<times> string) list \<Rightarrow>
     error + ((string \<times> nat) list \<times> string list)" where
  "sqlForPartialUpdate dataToUpdate jsToSql =
     (if dataToUpdate = [] then Inl ValidationError
      else Inr (map (\<lambda>(idx, k). (case map_of jsToSql k of Some c \<Rightarrow> c | None \<Rightarrow> k, idx + 1))
                    (enumerate 0 (map fst dataToUpdate)),
                map snd dataToUpdate))"

subsection \<open>The methods of User\<close>

text \<open>
  Lines 105-132. The password of the row found is compared with bcrypt; the row is
  returned without its \<open>password\<close> property only when the comparison is \<open>true\<close>.
\<close>

definition authenticate :: "bcrypt_env \<Rightarrow> database \<Rightarrow> string \<Rightarrow> string \<Rightarrow> error + row" where
  "authenticate env db username password =
     (case first_row (authenticate_query db username) of
        Some user \<Rightarrow>
          (case map_of user ''password'' of
             Some (SqlText h) \<Rightarrow>
               if bcrypt_compare env password h
               then Inr (AList.delete ''password'' user)
               else Inl (UnauthorizedError ''Invalid username/password'')
           | _ \<Rightarrow> Inl UnclassifiedError)
      | None \<Rightarrow> Inl (UnauthorizedError ''Invalid username/password''))"

text \<open>
  Lines 140-176. The argument is the destructured object
  \<open>{ username, password, firstName, lastName, email }\<close>; the result is \<open>result.rows[0]\<close>.
\<close>

record registration =
  reg_username :: string
  reg_password :: string
  reg_firstName :: string
  reg_lastName :: string
  reg_email :: string

definition register ::
  "bcrypt_env \<Rightarrow> nat \<Rightarrow> database \<Rightarrow> registration \<Rightarrow> (error + row option) \<times> database" where
  "register env salt db r =
     (let duplicateCheck = duplicate_query db (reg_username r)
      in if length duplicateCheck > 0
         then (Inl (BadRequestError (''Duplicate username: '' @ reg_username r)), db)
         else
           (let hashedPassword = bcrypt_hash env (reg_password r) (BCRYPT_WORK_FACTOR env) salt;
                result = insert_query db (reg_username r) hashedPassword
                           (reg_firstName r) (reg_lastName r) (reg_email r)
            in (Inr (first_row (fst result)), snd result)))"

text \<open>Lines 183-197: the rows of the statement, as they are.\<close>

definition getAll :: "database \<Rightarrow> row list" where
  "getAll db = getAll_query db"

text \<open>
  Lines 209-247. The object returned is the user row with three more properties; the
  record keeps the row and the three lists apart.
\<close>

record user_profile =
  user_fields :: row
  listings :: "row list"
  bookings :: "row list"
  conversations :: "row list"

definition get :: "database \<Rightarrow> string \<Rightarrow> error + user_profile" where
  "get db username =
     (case first_row (get_user_query db username) of
        None \<Rightarrow> Inl (NotFoundError (''User not found: '' @ username))
      | Some user \<Rightarrow>
          (let user_id = (case map_of user ''id'' of Some v \<Rightarrow> v | None \<Rightarrow> SqlNull)
           in Inr \<lparr>user_fields = user,
                        listings = listings_query db user_id,
                        bookings = bookings_query db user_id,
                        conversations = conversations_query db user_id\<rparr>))"

text \<open>
  Lines 261-263. \<open>data\<close> is an object with string values: a list of distinct keys in
  insertion order. \<open>if (data.password)\<close> holds for a non-empty string; assigning to an
  existing property keeps its place.
\<close>

definition rehash_password ::
  "bcrypt_env \<Rightarrow> nat \<Rightarrow> (string \<times> string) list \<Rightarrow> (string \<times> string) list" where
  "rehash_password env salt data =
     (case map_of data ''password'' of
        Some p \<Rightarrow>
          if p \<noteq> []
          then AList.update ''password'' (bcrypt_hash env p (BCRYPT_WORK_FACTOR env) salt) data
          else data
      | None \<Rightarrow> data)"

text \<open>Lines 260-286 (the parameter \<open>id\<close> is \<open>uid\<close> here).\<close>

definition update ::
  "bcrypt_env \<Rightarrow> nat \<Rightarrow> database \<Rightarrow> int \<Rightarrow> (string \<times> string) list \<Rightarrow> (error + row) \<times> database" where
  "update env salt db uid data =
     (case sqlForPartialUpdate (rehash_password env salt data)
             [(''firstName'', ''first_name''), (''lastName'', ''last_name'')] of
        Inl e \<Rightarrow> (Inl e, db)
      | Inr (setCols, values) \<Rightarrow>
          (let idVarIdx = length values + 1
           in case update_query db setCols idVarIdx (map SqlText values @ [SqlInt uid]) of
                Inl e \<Rightarrow> (Inl e, db)
              | Inr (rows, db') \<Rightarrow>
                  (case first_row rows of
                     None \<Rightarrow> (Inl (NotFoundError (''No user: '' @ string_of_int uid)), db')
                   | Some user \<Rightarrow> (Inr (AList.delete ''password'' user), db'))))"

subsection \<open>Reading a result row, and the effect of a field mapping on a stored row\<close>

text \<open>
  \<open>row_id\<close> and \<open>row_text\<close> read a property of a result row (0 and the empty text
  when it is absent or of the other kind). \<open>column_of\<close> is the translation of update's
  table, and \<open>apply_fields\<close> assigns the values of a field mapping to a stored row, in
  the order of the mapping.
\<close>

definition row_id :: "row \<Rightarrow> int" where
  "row_id r = (case map_of r ''id'' of Some (SqlInt i) \<Rightarrow> i | _ \<Rightarrow> 0)"

definition row_text :: "string \<Rightarrow> row \<Rightarrow> string" where
  "row_text k r = (case map_of r k of Some (SqlText s) \<Rightarrow> s | _ \<Rightarrow> [])"

definition column_of :: "string \<Rightarrow> string" where
  "column_of k =
     (case map_of [(''firstName'', ''first_name''), (''lastName'', ''last_name'')] k of
        Some c \<Rightarrow> c
      | None \<Rightarrow> k)"

definition apply_fields :: "(string \<times> string) list \<Rightarrow> users_rec \<Rightarrow> users_rec" where
  "apply_fields data u = fold (\<lambda>kv. set_column (column_of (fst kv)) (snd kv)) data u"

definition updatable :: "string set" where
  "updatable = {''firstName'', ''lastName'', ''email'', ''password''}"

subsection \<open>A concrete hasher and a concrete storage\<close>

text \<open>
  An instance to evaluate the methods on: a hasher that keeps the contract of section 4.1
  (a digest verifies exactly the text it was made from, whatever the salt), and a storage
  with two users, three listings, two bookings and no conversation; \<open>demo_talk_db\<close> is
  that storage with a third user and three conversations.
\<close>

definition demo_env :: bcrypt_env where
  "demo_env =
     \<lparr>bcrypt_hash = (\<lambda>data rounds salt. replicate salt CHR ''.'' @ CHR ''$'' # data),
      bcrypt_compare = (\<lambda>data digest. dropWhile (\<lambda>c. c = CHR ''.'') digest = CHR ''$'' # data),
      BCRYPT_WORK_FACTOR = 12\<rparr>"

definition demo_db :: database where
  "demo_db =
     \<lparr>users_tbl =
        [\<lparr>u_id = 1, u_username = ''bob'', u_password = ''.$hunter2'',
          u_first_name = ''Bob'', u_last_name = ''Stone'', u_email = ''bob@x.org''\<rparr>,
         \<lparr>u_id = 2, u_username = ''amy'', u_password = ''..$newpw'',
          u_first_name = ''Amy'', u_last_name = ''Reed'', u_email = ''amy@x.org''\<rparr>],
      listings_tbl =
        [\<lparr>l_id = 7, l_owner_id = 1, l_name = ''Loft'', l_description = ''Bright'', l_price = 90,
          l_street = ''1 Main'', l_city = ''Troy'', l_state = ''NY'', l_zip = ''12180'',
          l_genre = ''flat''\<rparr>,
         \<lparr>l_id = 3, l_owner_id = 1, l_name = ''Barn'', l_description = ''Wide'', l_price = 40,
          l_street = ''2 Hill'', l_city = ''Troy'', l_state = ''NY'', l_zip = ''12180'',
          l_genre = ''yard''\<rparr>,
         \<lparr>l_id = 5, l_owner_id = 2, l_name = ''Pool'', l_description = ''Deep'', l_price = 60,
          l_street = ''3 Lake'', l_city = ''Troy'', l_state = ''NY'', l_zip = ''12180'',
          l_genre = ''pool''\<rparr>],
      bookings_tbl =
        [\<lparr>b_id = 4, b_owner_id = 2, b_renter_id = 1, b_listing_id = 5, b_created_at = 100\<rparr>,
         \<lparr>b_id = 2, b_owner_id = 1, b_renter_id = 2, b_listing_id = 7, b_created_at = 50\<rparr>],
      conversations_tbl = [],
      users_id_seq = 3\<rparr>"

definition demo_talk_db :: database where
  "demo_talk_db =
     demo_db
       \<lparr>users_tbl := users_tbl demo_db @
          [\<lparr>u_id = 3, u_username = ''cy'', u_password = ''.$pw3'',
            u_first_name = ''Cy'', u_last_name = ''Park'', u_email = ''cy@x.org''\<rparr>],
        conversations_tbl :=
          [\<lparr>c_id = 8, c_renter_id = 2, c_owner_id = 1, c_listing_id = 7\<rparr>,
           \<lparr>c_id = 6, c_renter_id = 3, c_owner_id = 2, c_listing_id = 5\<rparr>,
           \<lparr>c_id = 4, c_renter_id = 1, c_owner_id = 2, c_listing_id = 5\<rparr>],
        users_id_seq := 4\<rparr>"

section \<open>Properties\<close>

subsection \<open>Reading the first row of a filtered table\<close>

lemma first_row_map_filter:
  "first_row (map f (filter P xs)) = map_option f (find P xs)"
  by (induction xs) (simp_all add: first_row_def)

subsection \<open>authenticate\<close>

text \<open>
  C1. For every username and password, \<open>authenticate\<close> looks the user up by username
  (the first row of \<open>users\<close> with that username). When there is none, or when the password
  does not verify against the stored hash, it fails with \<open>UnauthorizedError\<close>, with the
  same message in both cases, so the two failures are the same value. When the password
  verifies, it returns the row with id, username, firstName, lastName and email; no result
  of \<open>authenticate\<close> has a \<open>password\<close> property.
\<close>

theorem authenticate_unauthorized_or_public:
  "(find (\<lambda>u. u_username u = uname) (users_tbl db) = None \<longrightarrow>
      authenticate env db uname pw = Inl (UnauthorizedError ''Invalid username/password''))
   \<and> (\<forall>u. find (\<lambda>u. u_username u = uname) (users_tbl db) = Some u \<and>
            \<not> bcrypt_compare env pw (u_password u) \<longrightarrow>
      authenticate env db uname pw = Inl (UnauthorizedError ''Invalid username/password''))
   \<and> (\<forall>u. find (\<lambda>u. u_username u = uname) (users_tbl db) = Some u \<and>
            bcrypt_compare env pw (u_password u) \<longrightarrow>
      authenticate env db uname pw =
        Inr [(''id'', SqlInt (u_id u)), (''username'', SqlText uname),
             (''firstName'', SqlText (u_first_name u)),
             (''lastName'', SqlText (u_last_name u)),
             (''email'', SqlText (u_email u))])
   \<and> (\<forall>r. authenticate env db uname pw = Inr r \<longrightarrow> map_of r ''password'' = None)"
proof -
  have fr: "first_row (authenticate_query db uname) =
      map_option (\<lambda>u. [(''id'', SqlInt (u_id u)),
               (''username'', SqlText (u_username u)),
               (''password'', SqlText (u_password u)),
               (''firstName'', SqlText (u_first_name u)),
               (''lastName'', SqlText (u_last_name u)),
               (''email'', SqlText (u_email u))]) (find (\<lambda>u. u_username u = uname) (users_tbl db))"
    unfolding authenticate_query_def by (rule first_row_map_filter)
  show ?thesis
  proof (cases "find (\<lambda>u. u_username u = uname) (users_tbl db)")
    case None
    then show ?thesis by (simp add: authenticate_def fr)
  next
    case (Some u)
    then have "u_username u = uname" by (auto simp: find_Some_iff)
    with Some show ?thesis by (simp add: authenticate_def fr)
  qed
qed

theorem authenticate_unauthorized_or_public_witness:
  "authenticate demo_env demo_db ''zed'' ''hunter2'' =
     Inl (UnauthorizedError ''Invalid username/password'')
   \<and> authenticate demo_env demo_db ''bob'' ''hunter3'' =
     Inl (UnauthorizedError ''Invalid username/password'')
   \<and> authenticate demo_env demo_db ''bob'' ''hunter2'' =
        Inr [(''id'', SqlInt 1), (''username'', SqlText ''bob''),
             (''firstName'', SqlText ''Bob''), (''lastName'', SqlText ''Stone''),
             (''email'', SqlText ''bob@x.org'')]"
  using authenticate_unauthorized_or_public [of "''zed''" demo_db demo_env "''hunter2''"]
        authenticate_unauthorized_or_public [of "''bob''" demo_db demo_env "''hunter3''"]
        authenticate_unauthorized_or_public [of "''bob''" demo_db demo_env "''hunter2''"]
  by (simp add: demo_db_def demo_env_def)

subsection \<open>register\<close>

text \<open>
  C3. For every registration request: when its username is already present in storage,
  \<open>register\<close> fails with \<open>BadRequestError\<close> and the storage is returned unchanged (no
  row is added); when the username is not present, the password is hashed, exactly one row
  is appended to \<open>users\<close> (with the hash, not the password, in its password column), and
  the result is the public projection of the new user: id, username, firstName, lastName
  and email.
\<close>

theorem register_duplicate_or_insert:
  "(reg_username r \<in> u_username ` set (users_tbl db) \<longrightarrow>
      register env salt db r =
        (Inl (BadRequestError (''Duplicate username: '' @ reg_username r)), db))
   \<and> (reg_username r \<notin> u_username ` set (users_tbl db) \<longrightarrow>
      register env salt db r =
        (Inr (Some [(''id'', SqlInt (users_id_seq db)),
                    (''username'', SqlText (reg_username r)),
                    (''firstName'', SqlText (reg_firstName r)),
                    (''lastName'', SqlText (reg_lastName r)),
                    (''email'', SqlText (reg_email r))]),
         db\<lparr>users_tbl := users_tbl db @
               [\<lparr>u_id = users_id_seq db, u_username = reg_username r,
                 u_password = bcrypt_hash env (reg_password r) (BCRYPT_WORK_FACTOR env) salt,
                 u_first_name = reg_firstName r, u_last_name = reg_lastName r,
                 u_email = reg_email r\<rparr>],
             users_id_seq := users_id_seq db + 1\<rparr>))"
proof -
  have len: "(duplicate_query db (reg_username r) = []) =
               (reg_username r \<notin> u_username ` set (users_tbl db))"
    by (force simp: duplicate_query_def filter_empty_conv image_iff)
  show ?thesis
    by (simp add: register_def len Let_def insert_query_def first_row_def)
qed

theorem register_duplicate_or_insert_witness:
  "register demo_env 1 demo_db
     \<lparr>reg_username = ''bob'', reg_password = ''pw'', reg_firstName = ''Rob'',
      reg_lastName = ''Roy'', reg_email = ''r@x.org''\<rparr> =
     (Inl (BadRequestError ''Duplicate username: bob''), demo_db)
   \<and> fst (register demo_env 1 demo_db
     \<lparr>reg_username = ''cat'', reg_password = ''pw'', reg_firstName = ''Cat'',
      reg_lastName = ''Lee'', reg_email = ''c@x.org''\<rparr>) =
     Inr (Some [(''id'', SqlInt 3), (''username'', SqlText ''cat''),
                (''firstName'', SqlText ''Cat''), (''lastName'', SqlText ''Lee''),
                (''email'', SqlText ''c@x.org'')])
   \<and> map u_password (users_tbl (snd (register demo_env 1 demo_db
     \<lparr>reg_username = ''cat'', reg_password = ''pw'', reg_firstName = ''Cat'',
      reg_lastName = ''Lee'', reg_email = ''c@x.org''\<rparr>))) =
     [''.$hunter2'', ''..$newpw'', ''.$pw'']"
  using register_duplicate_or_insert [of
          "\<lparr>reg_username = ''bob'', reg_password = ''pw'', reg_firstName = ''Rob'',
            reg_lastName = ''Roy'', reg_email = ''r@x.org''\<rparr>" demo_db demo_env 1]
        register_duplicate_or_insert [of
          "\<lparr>reg_username = ''cat'', reg_password = ''pw'', reg_firstName = ''Cat'',
            reg_lastName = ''Lee'', reg_email = ''c@x.org''\<rparr>" demo_db demo_env 1]
  by (simp add: demo_db_def demo_env_def)

subsection \<open>update with an empty mapping\<close>

text \<open>
  C5. For every id, \<open>update\<close> with an empty field mapping fails with
  \<open>ValidationError\<close>, raised by the Partial-Update Builder before any statement is sent:
  the storage returned is the storage given.
\<close>

theorem update_empty_mapping:
  "sqlForPartialUpdate (rehash_password env salt [])
       [(''firstName'', ''first_name''), (''lastName'', ''last_name'')] = Inl ValidationError
   \<and> update env salt db uid [] = (Inl ValidationError, db)"
  by (simp add: update_def rehash_password_def sqlForPartialUpdate_def)

subsection \<open>The statements of get\<close>

lemma first_row_get_user_query:
  "first_row (get_user_query db uname) =
     map_option (\<lambda>u. [(''id'', SqlInt (u_id u)),
                       (''username'', SqlText (u_username u)),
                       (''firstname'', SqlText (u_first_name u)),
                       (''lastname'', SqlText (u_last_name u)),
                       (''email'', SqlText (u_email u))])
                (find (\<lambda>u. u_username u = uname) (users_tbl db))"
  unfolding get_user_query_def by (rule first_row_map_filter)

lemma get_found:
  assumes "find (\<lambda>u. u_username u = uname) (users_tbl db) = Some u"
  shows "get db uname =
     Inr \<lparr>user_fields = [(''id'', SqlInt (u_id u)),
                       (''username'', SqlText (u_username u)),
                       (''firstname'', SqlText (u_first_name u)),
                       (''lastname'', SqlText (u_last_name u)),
                       (''email'', SqlText (u_email u))],
          listings = listings_query db (SqlInt (u_id u)),
          bookings = bookings_query db (SqlInt (u_id u)),
          conversations = conversations_query db (SqlInt (u_id u))\<rparr>"
  using assms by (simp add: get_def first_row_get_user_query Let_def)

lemma listings_query_props:
  "sorted (map row_id (listings_query db (SqlInt i)))
   \<and> mset (listings_query db (SqlInt i)) =
       image_mset listing_row (filter_mset (\<lambda>l. l_owner_id l = i) (mset (listings_tbl db)))"
  by (simp add: listings_query_def comp_def row_id_def listing_row_def)

lemma bookings_query_props:
  "sorted (map row_id (bookings_query db (SqlInt i)))
   \<and> mset (bookings_query db (SqlInt i)) =
       image_mset booking_row (filter_mset (\<lambda>b. b_renter_id b = i) (mset (bookings_tbl db)))"
  by (simp add: bookings_query_def comp_def row_id_def booking_row_def)

lemma conversations_query_props:
  "sorted (map row_id (conversations_query db (SqlInt i)))
   \<and> mset (conversations_query db (SqlInt i)) =
       image_mset conversation_row
         (filter_mset (\<lambda>c. c_owner_id c = i \<or> c_renter_id c = i) (mset (conversations_tbl db)))"
  by (simp add: conversations_query_def comp_def row_id_def conversation_row_def)

lemma find_append_new:
  "find P xs = None \<Longrightarrow> P y \<Longrightarrow> find P (xs @ [y]) = Some y"
  by (induction xs) (auto split: if_splits)

lemma register_success:
  assumes "register env salt db r = (Inr res, db')"
  shows "reg_username r \<notin> u_username ` set (users_tbl db)
     \<and> users_tbl db' = users_tbl db @
               [\<lparr>u_id = users_id_seq db, u_username = reg_username r,
                 u_password = bcrypt_hash env (reg_password r) (BCRYPT_WORK_FACTOR env) salt,
                 u_first_name = reg_firstName r, u_last_name = reg_lastName r,
                 u_email = reg_email r\<rparr>]"
proof -
  have len: "(duplicate_query db (reg_username r) = []) =
               (reg_username r \<notin> u_username ` set (users_tbl db))"
    by (force simp: duplicate_query_def filter_empty_conv image_iff)
  from assms show ?thesis
    by (auto simp: register_def len Let_def insert_query_def split: if_splits)
qed

subsection \<open>getAll\<close>

text \<open>
  C7. \<open>getAll\<close> returns all users, each once, ordered by username ascending, and every
  returned row carries the stored password hash under \<open>password\<close> (the rows of the
  statement are returned as they are), whereas no row returned by \<open>authenticate\<close> or by
  \<open>get\<close> has a \<open>password\<close> property.
\<close>

theorem getAll_sorted_with_hash:
  "sorted (map (row_text ''username'') (getAll db))
   \<and> mset (getAll db) =
       image_mset (\<lambda>u. [(''id'', SqlInt (u_id u)),
                         (''username'', SqlText (u_username u)),
                         (''password'', SqlText (u_password u)),
                         (''firstname'', SqlText (u_first_name u)),
                         (''lastname'', SqlText (u_last_name u)),
                         (''email'', SqlText (u_email u))])
                  (mset (users_tbl db))
   \<and> map (row_text ''password'') (getAll db) = map u_password (sort_key u_username (users_tbl db))
   \<and> list_all (\<lambda>r. map_of r ''password'' \<noteq> None) (getAll db)
   \<and> (\<forall>r. authenticate env db uname pw = Inr r \<longrightarrow> map_of r ''password'' = None)
   \<and> (\<forall>p. get db uname = Inr p \<longrightarrow> map_of (user_fields p) ''password'' = None)"
proof -
  have s: "sorted (map (row_text ''username'') (getAll db))"
    by (simp add: getAll_def getAll_query_def comp_def row_text_def)
  have m: "mset (getAll db) =
       image_mset (\<lambda>u. [(''id'', SqlInt (u_id u)),
                         (''username'', SqlText (u_username u)),
                         (''password'', SqlText (u_password u)),
                         (''firstname'', SqlText (u_first_name u)),
                         (''lastname'', SqlText (u_last_name u)),
                         (''email'', SqlText (u_email u))])
                  (mset (users_tbl db))"
    by (simp add: getAll_def getAll_query_def)
  have p: "map (row_text ''password'') (getAll db) = map u_password (sort_key u_username (users_tbl db))"
    by (simp add: getAll_def getAll_query_def comp_def row_text_def)
  have q: "list_all (\<lambda>r. map_of r ''password'' \<noteq> None) (getAll db)"
    by (simp add: getAll_def getAll_query_def list_all_iff)
  have a: "\<forall>r. authenticate env db uname pw = Inr r \<longrightarrow> map_of r ''password'' = None"
    by (auto simp: authenticate_def authenticate_query_def first_row_map_filter
             split: option.splits sum.splits sqlval.splits if_splits)
  have g: "\<forall>p. get db uname = Inr p \<longrightarrow> map_of (user_fields p) ''password'' = None"
    by (auto simp: get_def get_user_query_def first_row_map_filter Let_def
             split: option.splits sum.splits)
  from s m p q a g show ?thesis by blast
qed

theorem getAll_sorted_with_hash_witness:
  "map (row_text ''username'') (getAll demo_db) = [''amy'', ''bob'']
   \<and> map (row_text ''password'') (getAll demo_db) = [''..$newpw'', ''.$hunter2'']
   \<and> (\<exists>r. authenticate demo_env demo_db ''bob'' ''hunter2'' = Inr r \<and> map_of r ''password'' = None)
   \<and> (\<exists>p. get demo_db ''bob'' = Inr p \<and> map_of (user_fields p) ''password'' = None)"
proof -
  have a: "authenticate demo_env demo_db ''bob'' ''hunter2'' =
        Inr [(''id'', SqlInt 1), (''username'', SqlText ''bob''),
             (''firstName'', SqlText ''Bob''), (''lastName'', SqlText ''Stone''),
             (''email'', SqlText ''bob@x.org'')]"
    by (simp add: authenticate_def authenticate_query_def first_row_def demo_db_def demo_env_def)
  have g: "\<exists>p. get demo_db ''bob'' = Inr p"
    by (simp add: get_def get_user_query_def first_row_def demo_db_def Let_def)
  have u: "map (row_text ''username'') (getAll demo_db) = [''amy'', ''bob'']"
    by (simp add: getAll_def getAll_query_def demo_db_def row_text_def)
  from getAll_sorted_with_hash [of demo_db demo_env "''bob''" "''hunter2''"] a g u
  show ?thesis
    by (auto simp: demo_db_def)
qed

subsection \<open>get\<close>

lemma mset_one: "mset xs = {#a#} \<Longrightarrow> xs = [a]"
  by (cases xs) auto

lemma mset_two: "mset xs = {#a, b#} \<Longrightarrow> xs = [a, b] \<or> xs = [b, a]"
proof (cases xs)
  case Nil
  assume "mset xs = {#a, b#}"
  with Nil show ?thesis by simp
next
  case (Cons x ys)
  assume m: "mset xs = {#a, b#}"
  with Cons have "add_mset x (mset ys) = add_mset a {#b#}" by simp
  then consider "x = a" "mset ys = {#b#}" | "x = b" "mset ys = {#a#}"
    by (auto simp: add_eq_conv_ex)
  then show ?thesis
    by cases (auto simp: Cons dest: mset_one)
qed

text \<open>
  C4. For every username: when no user has that username, \<open>get\<close> fails with
  \<open>NotFoundError\<close>; otherwise it returns the user row with three attached sequences.
  The listings are the rows (id, name, description, price, street, city, state, zip, genre)
  of exactly the stored listings whose owner is the user; the bookings are the rows
  (id, owner_id, renter_id, listing_id, created_at) of exactly the stored bookings whose
  renter is the user; the conversations are the rows (id, renter_id, owner_id, listing_id)
  of exactly the stored conversations whose owner or renter is the user. Each sequence is
  in ascending order of id, and is empty (not an error) when there is no such row.
\<close>

theorem get_not_found_or_profile:
  "(find (\<lambda>u. u_username u = uname) (users_tbl db) = None \<longrightarrow>
      get db uname = Inl (NotFoundError (''User not found: '' @ uname)))
   \<and> (\<forall>u. find (\<lambda>u. u_username u = uname) (users_tbl db) = Some u \<longrightarrow>
        (\<exists>p ls bs cs. get db uname = Inr p
           \<and> user_fields p = [(''id'', SqlInt (u_id u)),
                              (''username'', SqlText uname),
                              (''firstname'', SqlText (u_first_name u)),
                              (''lastname'', SqlText (u_last_name u)),
                              (''email'', SqlText (u_email u))]
           \<and> listings p =
               map (\<lambda>l. [(''id'', SqlInt (l_id l)),
                          (''name'', SqlText (l_name l)),
                          (''description'', SqlText (l_description l)),
                          (''price'', SqlInt (l_price l)),
                          (''street'', SqlText (l_street l)),
                          (''city'', SqlText (l_city l)),
                          (''state'', SqlText (l_state l)),
                          (''zip'', SqlText (l_zip l)),
                          (''genre'', SqlText (l_genre l))]) ls
           \<and> sorted (map l_id ls)
           \<and> mset ls = filter_mset (\<lambda>l. l_owner_id l = u_id u) (mset (listings_tbl db))
           \<and> bookings p =
               map (\<lambda>b. [(''id'', SqlInt (b_id b)),
                          (''owner_id'', SqlInt (b_owner_id b)),
                          (''renter_id'', SqlInt (b_renter_id b)),
                          (''listing_id'', SqlInt (b_listing_id b)),
                          (''created_at'', SqlInt (b_created_at b))]) bs
           \<and> sorted (map b_id bs)
           \<and> mset bs = filter_mset (\<lambda>b. b_renter_id b = u_id u) (mset (bookings_tbl db))
           \<and> conversations p =
               map (\<lambda>c. [(''id'', SqlInt (c_id c)),
                          (''renter_id'', SqlInt (c_renter_id c)),
                          (''owner_id'', SqlInt (c_owner_id c)),
                          (''listing_id'', SqlInt (c_listing_id c))]) cs
           \<and> sorted (map c_id cs)
           \<and> mset cs = filter_mset (\<lambda>c. c_owner_id c = u_id u \<or> c_renter_id c = u_id u)
                           (mset (conversations_tbl db))
           \<and> (list_all (\<lambda>l. l_owner_id l \<noteq> u_id u) (listings_tbl db) \<longrightarrow> listings p = [])
           \<and> (list_all (\<lambda>b. b_renter_id b \<noteq> u_id u) (bookings_tbl db) \<longrightarrow> bookings p = [])
           \<and> (list_all (\<lambda>c. c_owner_id c \<noteq> u_id u \<and> c_renter_id c \<noteq> u_id u)
                 (conversations_tbl db) \<longrightarrow> conversations p = [])))"
proof (cases "find (\<lambda>u. u_username u = uname) (users_tbl db)")
  case None
  then show ?thesis by (simp add: get_def first_row_get_user_query)
next
  case (Some u)
  then have n: "u_username u = uname" by (auto simp: find_Some_iff)
  let ?ls = "sort_key l_id (filter (\<lambda>l. l_owner_id l = u_id u) (listings_tbl db))"
  let ?bs = "sort_key b_id (filter (\<lambda>b. b_renter_id b = u_id u) (bookings_tbl db))"
  let ?cs = "sort_key c_id (filter (\<lambda>c. c_owner_id c = u_id u \<or> c_renter_id c = u_id u)
                              (conversations_tbl db))"
  let ?p = "\<lparr>user_fields = [(''id'', SqlInt (u_id u)),
                       (''username'', SqlText (u_username u)),
                       (''firstname'', SqlText (u_first_name u)),
                       (''lastname'', SqlText (u_last_name u)),
                       (''email'', SqlText (u_email u))],
          listings = listings_query db (SqlInt (u_id u)),
          bookings = bookings_query db (SqlInt (u_id u)),
          conversations = conversations_query db (SqlInt (u_id u))\<rparr>"
  have g: "get db uname = Inr ?p" by (rule get_found [OF Some])
  have l: "listings ?p = map (\<lambda>l. [(''id'', SqlInt (l_id l)),
                          (''name'', SqlText (l_name l)),
                          (''description'', SqlText (l_description l)),
                          (''price'', SqlInt (l_price l)),
                          (''street'', SqlText (l_street l)),
                          (''city'', SqlText (l_city l)),
                          (''state'', SqlText (l_state l)),
                          (''zip'', SqlText (l_zip l)),
                          (''genre'', SqlText (l_genre l))]) ?ls"
    by (simp add: listings_query_def listing_row_def)
  have b: "bookings ?p = map (\<lambda>b. [(''id'', SqlInt (b_id b)),
                          (''owner_id'', SqlInt (b_owner_id b)),
                          (''renter_id'', SqlInt (b_renter_id b)),
                          (''listing_id'', SqlInt (b_listing_id b)),
                          (''created_at'', SqlInt (b_created_at b))]) ?bs"
    by (simp add: bookings_query_def booking_row_def)
  have c: "conversations ?p = map (\<lambda>c. [(''id'', SqlInt (c_id c)),
                          (''renter_id'', SqlInt (c_renter_id c)),
                          (''owner_id'', SqlInt (c_owner_id c)),
                          (''listing_id'', SqlInt (c_listing_id c))]) ?cs"
    by (simp add: conversations_query_def conversation_row_def)
  have sl: "sorted (map l_id ?ls)" "mset ?ls = filter_mset (\<lambda>l. l_owner_id l = u_id u) (mset (listings_tbl db))"
    by simp_all
  have sb: "sorted (map b_id ?bs)" "mset ?bs = filter_mset (\<lambda>b. b_renter_id b = u_id u) (mset (bookings_tbl db))"
    by simp_all
  have sc: "sorted (map c_id ?cs)"
     "mset ?cs = filter_mset (\<lambda>c. c_owner_id c = u_id u \<or> c_renter_id c = u_id u)
                           (mset (conversations_tbl db))"
    by simp_all
  have e1: "list_all (\<lambda>l. l_owner_id l \<noteq> u_id u) (listings_tbl db) \<longrightarrow> listings ?p = []"
    by (simp add: listings_query_def list_all_iff filter_empty_conv)
  have e2: "list_all (\<lambda>b. b_renter_id b \<noteq> u_id u) (bookings_tbl db) \<longrightarrow> bookings ?p = []"
    by (simp add: bookings_query_def list_all_iff filter_empty_conv)
  have e3: "list_all (\<lambda>c. c_owner_id c \<noteq> u_id u \<and> c_renter_id c \<noteq> u_id u)
              (conversations_tbl db) \<longrightarrow> conversations ?p = []"
    by (simp add: conversations_query_def list_all_iff filter_empty_conv)
  have uf: "user_fields ?p = [(''id'', SqlInt (u_id u)),
                              (''username'', SqlText uname),
                              (''firstname'', SqlText (u_first_name u)),
                              (''lastname'', SqlText (u_last_name u)),
                              (''email'', SqlText (u_email u))]"
    by (simp add: n)
  have "\<exists>p ls bs cs. get db uname = Inr p
           \<and> user_fields p = [(''id'', SqlInt (u_id u)),
                              (''username'', SqlText uname),
                              (''firstname'', SqlText (u_first_name u)),
                              (''lastname'', SqlText (u_last_name u)),
                              (''email'', SqlText (u_email u))]
           \<and> listings p =
               map (\<lambda>l. [(''id'', SqlInt (l_id l)),
                          (''name'', SqlText (l_name l)),
                          (''description'', SqlText (l_description l)),
                          (''price'', SqlInt (l_price l)),
                          (''street'', SqlText (l_street l)),
                          (''city'', SqlText (l_city l)),
                          (''state'', SqlText (l_state l)),
                          (''zip'', SqlText (l_zip l)),
                          (''genre'', SqlText (l_genre l))]) ls
           \<and> sorted (map l_id ls)
           \<and> mset ls = filter_mset (\<lambda>l. l_owner_id l = u_id u) (mset (listings_tbl db))
           \<and> bookings p =
               map (\<lambda>b. [(''id'', SqlInt (b_id b)),
                          (''owner_id'', SqlInt (b_owner_id b)),
                          (''renter_id'', SqlInt (b_renter_id b)),
                          (''listing_id'', SqlInt (b_listing_id b)),
                          (''created_at'', SqlInt (b_created_at b))]) bs
           \<and> sorted (map b_id bs)
           \<and> mset bs = filter_mset (\<lambda>b. b_renter_id b = u_id u) (mset (bookings_tbl db))
           \<and> conversations p =
               map (\<lambda>c. [(''id'', SqlInt (c_id c)),
                          (''renter_id'', SqlInt (c_renter_id c)),
                          (''owner_id'', SqlInt (c_owner_id c)),
                          (''listing_id'', SqlInt (c_listing_id c))]) cs
           \<and> sorted (map c_id cs)
           \<and> mset cs = filter_mset (\<lambda>c. c_owner_id c = u_id u \<or> c_renter_id c = u_id u)
                           (mset (conversations_tbl db))
           \<and> (list_all (\<lambda>l. l_owner_id l \<noteq> u_id u) (listings_tbl db) \<longrightarrow> listings p = [])
           \<and> (list_all (\<lambda>b. b_renter_id b \<noteq> u_id u) (bookings_tbl db) \<longrightarrow> bookings p = [])
           \<and> (list_all (\<lambda>c. c_owner_id c \<noteq> u_id u \<and> c_renter_id c \<noteq> u_id u)
                 (conversations_tbl db) \<longrightarrow> conversations p = [])"
    apply (rule exI [of _ ?p])
    apply (rule exI [of _ ?ls])
    apply (rule exI [of _ ?bs])
    apply (rule exI [of _ ?cs])
    apply (intro conjI)
                apply (rule g)
               apply (rule uf)
              apply (rule l)
             apply (rule sl(1))
            apply (rule sl(2))
           apply (rule b)
          apply (rule sb(1))
         apply (rule sb(2))
        apply (rule c)
       apply (rule sc(1))
      apply (rule sc(2))
     apply (rule e1)
    apply (rule e2)
    apply (rule e3)
    done
  with Some show ?thesis by simp
qed

theorem get_not_found_or_profile_witness:
  "get demo_talk_db ''zed'' = Inl (NotFoundError ''User not found: zed'')
   \<and> (\<exists>p. get demo_talk_db ''bob'' = Inr p
        \<and> listings p =
            [[(''id'', SqlInt 3), (''name'', SqlText ''Barn''), (''description'', SqlText ''Wide''),
              (''price'', SqlInt 40), (''street'', SqlText ''2 Hill''), (''city'', SqlText ''Troy''),
              (''state'', SqlText ''NY''), (''zip'', SqlText ''12180''), (''genre'', SqlText ''yard'')],
             [(''id'', SqlInt 7), (''name'', SqlText ''Loft''), (''description'', SqlText ''Bright''),
              (''price'', SqlInt 90), (''street'', SqlText ''1 Main''), (''city'', SqlText ''Troy''),
              (''state'', SqlText ''NY''), (''zip'', SqlText ''12180''), (''genre'', SqlText ''flat'')]]
        \<and> bookings p =
            [[(''id'', SqlInt 4), (''owner_id'', SqlInt 2), (''renter_id'', SqlInt 1),
              (''listing_id'', SqlInt 5), (''created_at'', SqlInt 100)]]
        \<and> conversations p =
            [[(''id'', SqlInt 4), (''renter_id'', SqlInt 1), (''owner_id'', SqlInt 2),
              (''listing_id'', SqlInt 5)],
             [(''id'', SqlInt 8), (''renter_id'', SqlInt 2), (''owner_id'', SqlInt 1),
              (''listing_id'', SqlInt 7)]])
   \<and> (\<exists>p. get demo_db ''bob'' = Inr p \<and> conversations p = [])"
proof -
  let ?bob = "\<lparr>u_id = 1, u_username = ''bob'', u_password = ''.$hunter2'',
                u_first_name = ''Bob'', u_last_name = ''Stone'', u_email = ''bob@x.org''\<rparr>"
  have z: "find (\<lambda>u. u_username u = ''zed'') (users_tbl demo_talk_db) = None"
    by (simp add: demo_talk_db_def demo_db_def)
  have f: "find (\<lambda>u. u_username u = ''bob'') (users_tbl demo_talk_db) = Some ?bob"
    by (simp add: demo_talk_db_def demo_db_def)
  have f0: "find (\<lambda>u. u_username u = ''bob'') (users_tbl demo_db) = Some ?bob"
    by (simp add: demo_db_def)
  from get_not_found_or_profile [of "''zed''" demo_talk_db] z
  have 1: "get demo_talk_db ''zed'' = Inl (NotFoundError ''User not found: zed'')" by simp
  from get_not_found_or_profile [of "''bob''" demo_talk_db] f
  obtain p ls bs cs where p: "get demo_talk_db ''bob'' = Inr p"
    and l: "listings p =
               map (\<lambda>l. [(''id'', SqlInt (l_id l)),
                          (''name'', SqlText (l_name l)),
                          (''description'', SqlText (l_description l)),
                          (''price'', SqlInt (l_price l)),
                          (''street'', SqlText (l_street l)),
                          (''city'', SqlText (l_city l)),
                          (''state'', SqlText (l_state l)),
                          (''zip'', SqlText (l_zip l)),
                          (''genre'', SqlText (l_genre l))]) ls"
    and sl: "sorted (map l_id ls)"
    and ml: "mset ls = filter_mset (\<lambda>l. l_owner_id l = u_id ?bob) (mset (listings_tbl demo_talk_db))"
    and b: "bookings p =
               map (\<lambda>b. [(''id'', SqlInt (b_id b)),
                          (''owner_id'', SqlInt (b_owner_id b)),
                          (''renter_id'', SqlInt (b_renter_id b)),
                          (''listing_id'', SqlInt (b_listing_id b)),
                          (''created_at'', SqlInt (b_created_at b))]) bs"
    and mb: "mset bs = filter_mset (\<lambda>b. b_renter_id b = u_id ?bob) (mset (bookings_tbl demo_talk_db))"
    and c: "conversations p =
               map (\<lambda>c. [(''id'', SqlInt (c_id c)),
                          (''renter_id'', SqlInt (c_renter_id c)),
                          (''owner_id'', SqlInt (c_owner_id c)),
                          (''listing_id'', SqlInt (c_listing_id c))]) cs"
    and sc: "sorted (map c_id cs)"
    and mc: "mset cs = filter_mset (\<lambda>c. c_owner_id c = u_id ?bob \<or> c_renter_id c = u_id ?bob)
                           (mset (conversations_tbl demo_talk_db))"
    by blast
  from ml have "mset ls =
      {#\<lparr>l_id = 7, l_owner_id = 1, l_name = ''Loft'', l_description = ''Bright'', l_price = 90,
          l_street = ''1 Main'', l_city = ''Troy'', l_state = ''NY'', l_zip = ''12180'',
          l_genre = ''flat''\<rparr>,
        \<lparr>l_id = 3, l_owner_id = 1, l_name = ''Barn'', l_description = ''Wide'', l_price = 40,
          l_street = ''2 Hill'', l_city = ''Troy'', l_state = ''NY'', l_zip = ''12180'',
          l_genre = ''yard''\<rparr>#}"
    by (simp add: demo_talk_db_def demo_db_def)
  from mset_two [OF this] sl have ls: "ls =
      [\<lparr>l_id = 3, l_owner_id = 1, l_name = ''Barn'', l_description = ''Wide'', l_price = 40,
          l_street = ''2 Hill'', l_city = ''Troy'', l_state = ''NY'', l_zip = ''12180'',
          l_genre = ''yard''\<rparr>,
       \<lparr>l_id = 7, l_owner_id = 1, l_name = ''Loft'', l_description = ''Bright'', l_price = 90,
          l_street = ''1 Main'', l_city = ''Troy'', l_state = ''NY'', l_zip = ''12180'',
          l_genre = ''flat''\<rparr>]"
    by auto
  from mb have "mset bs =
      {#\<lparr>b_id = 4, b_owner_id = 2, b_renter_id = 1, b_listing_id = 5, b_created_at = 100\<rparr>#}"
    by (simp add: demo_talk_db_def demo_db_def)
  then have bs: "bs =
      [\<lparr>b_id = 4, b_owner_id = 2, b_renter_id = 1, b_listing_id = 5, b_created_at = 100\<rparr>]"
    by (rule mset_one)
  from mc have "mset cs =
      {#\<lparr>c_id = 8, c_renter_id = 2, c_owner_id = 1, c_listing_id = 7\<rparr>,
        \<lparr>c_id = 4, c_renter_id = 1, c_owner_id = 2, c_listing_id = 5\<rparr>#}"
    by (simp add: demo_talk_db_def demo_db_def)
  from mset_two [OF this] sc have cs: "cs =
      [\<lparr>c_id = 4, c_renter_id = 1, c_owner_id = 2, c_listing_id = 5\<rparr>,
       \<lparr>c_id = 8, c_renter_id = 2, c_owner_id = 1, c_listing_id = 7\<rparr>]"
    by auto
  from get_not_found_or_profile [of "''bob''" demo_db] f0
  obtain p0 where p0: "get demo_db ''bob'' = Inr p0"
    and e: "list_all (\<lambda>c. c_owner_id c \<noteq> u_id ?bob \<and> c_renter_id c \<noteq> u_id ?bob)
                 (conversations_tbl demo_db) \<longrightarrow> conversations p0 = []"
    by blast
  from e have e0: "conversations p0 = []" by (simp add: demo_db_def)
  have 2: "\<exists>p. get demo_talk_db ''bob'' = Inr p
        \<and> listings p =
            [[(''id'', SqlInt 3), (''name'', SqlText ''Barn''), (''description'', SqlText ''Wide''),
              (''price'', SqlInt 40), (''street'', SqlText ''2 Hill''), (''city'', SqlText ''Troy''),
              (''state'', SqlText ''NY''), (''zip'', SqlText ''12180''), (''genre'', SqlText ''yard'')],
             [(''id'', SqlInt 7), (''name'', SqlText ''Loft''), (''description'', SqlText ''Bright''),
              (''price'', SqlInt 90), (''street'', SqlText ''1 Main''), (''city'', SqlText ''Troy''),
              (''state'', SqlText ''NY''), (''zip'', SqlText ''12180''), (''genre'', SqlText ''flat'')]]
        \<and> bookings p =
            [[(''id'', SqlInt 4), (''owner_id'', SqlInt 2), (''renter_id'', SqlInt 1),
              (''listing_id'', SqlInt 5), (''created_at'', SqlInt 100)]]
        \<and> conversations p =
            [[(''id'', SqlInt 4), (''renter_id'', SqlInt 1), (''owner_id'', SqlInt 2),
              (''listing_id'', SqlInt 5)],
             [(''id'', SqlInt 8), (''renter_id'', SqlInt 2), (''owner_id'', SqlInt 1),
              (''listing_id'', SqlInt 7)]]"
    using p l b c by (simp add: ls bs cs)
  have 3: "\<exists>p. get demo_db ''bob'' = Inr p \<and> conversations p = []"
    using p0 e0 by simp
  from 1 2 3 show ?thesis by (intro conjI)
qed

subsection \<open>register, then get\<close>

lemma get_after_register:
  assumes "register env salt db r = (Inr res, db')"
  shows "get db' (reg_username r) =
     Inr \<lparr>user_fields = [(''id'', SqlInt (users_id_seq db)),
                         (''username'', SqlText (reg_username r)),
                         (''firstname'', SqlText (reg_firstName r)),
                         (''lastname'', SqlText (reg_lastName r)),
                         (''email'', SqlText (reg_email r))],
          listings = listings_query db' (SqlInt (users_id_seq db)),
          bookings = bookings_query db' (SqlInt (users_id_seq db)),
          conversations = conversations_query db' (SqlInt (users_id_seq db))\<rparr>"
proof -
  let ?new = "\<lparr>u_id = users_id_seq db, u_username = reg_username r,
                 u_password = bcrypt_hash env (reg_password r) (BCRYPT_WORK_FACTOR env) salt,
                 u_first_name = reg_firstName r, u_last_name = reg_lastName r,
                 u_email = reg_email r\<rparr>"
  from register_success [OF assms]
  have fresh: "reg_username r \<notin> u_username ` set (users_tbl db)"
    and tbl: "users_tbl db' = users_tbl db @ [?new]" by simp_all
  from fresh have "find (\<lambda>u. u_username u = reg_username r) (users_tbl db) = None"
    by (force simp: find_None_iff image_iff)
  then have "find (\<lambda>u. u_username u = reg_username r) (users_tbl db') = Some ?new"
    unfolding tbl by (rule find_append_new) simp
  from get_found [OF this] show ?thesis by simp
qed

text \<open>
  C8. The claim is that \<open>get\<close> after a successful registration returns the firstName,
  lastName and email supplied. Evaluated on the storage above, for the registration of
  \<open>cat\<close> with firstName \<open>Cat\<close>, lastName \<open>Lee\<close> and email \<open>c@x.org\<close>:
  \<open>register\<close> succeeds, and the row that \<open>get\<close> then returns has the two names under
  the properties \<open>firstname\<close> and \<open>lastname\<close> (the aliases of its statement are not
  quoted); its properties \<open>firstName\<close> and \<open>lastName\<close> are absent.
\<close>

theorem register_then_get_keys:
  "fst (register demo_env 2 demo_db
          \<lparr>reg_username = ''cat'', reg_password = ''pw'', reg_firstName = ''Cat'',
           reg_lastName = ''Lee'', reg_email = ''c@x.org''\<rparr>) =
     Inr (Some [(''id'', SqlInt 3), (''username'', SqlText ''cat''),
                (''firstName'', SqlText ''Cat''), (''lastName'', SqlText ''Lee''),
                (''email'', SqlText ''c@x.org'')])
   \<and> get (snd (register demo_env 2 demo_db
            \<lparr>reg_username = ''cat'', reg_password = ''pw'', reg_firstName = ''Cat'',
             reg_lastName = ''Lee'', reg_email = ''c@x.org''\<rparr>)) ''cat'' =
     Inr \<lparr>user_fields = [(''id'', SqlInt 3), (''username'', SqlText ''cat''),
                         (''firstname'', SqlText ''Cat''), (''lastname'', SqlText ''Lee''),
                         (''email'', SqlText ''c@x.org'')],
          listings = [], bookings = [], conversations = []\<rparr>
   \<and> map_of [(''id'', SqlInt 3), (''username'', SqlText ''cat''),
              (''firstname'', SqlText ''Cat''), (''lastname'', SqlText ''Lee''),
              (''email'', SqlText ''c@x.org'')] ''firstName'' = None
   \<and> map_of [(''id'', SqlInt 3), (''username'', SqlText ''cat''),
              (''firstname'', SqlText ''Cat''), (''lastname'', SqlText ''Lee''),
              (''email'', SqlText ''c@x.org'')] ''lastName'' = None"
proof -
  let ?r = "\<lparr>reg_username = ''cat'', reg_password = ''pw'', reg_firstName = ''Cat'',
             reg_lastName = ''Lee'', reg_email = ''c@x.org''\<rparr>"
  let ?db' = "demo_db\<lparr>users_tbl := users_tbl demo_db @
               [\<lparr>u_id = 3, u_username = ''cat'', u_password = ''..$pw'',
                 u_first_name = ''Cat'', u_last_name = ''Lee'', u_email = ''c@x.org''\<rparr>],
             users_id_seq := 4\<rparr>"
  have r: "register demo_env 2 demo_db ?r =
     (Inr (Some [(''id'', SqlInt 3), (''username'', SqlText ''cat''),
                (''firstName'', SqlText ''Cat''), (''lastName'', SqlText ''Lee''),
                (''email'', SqlText ''c@x.org'')]), ?db')"
    by (simp add: register_def duplicate_query_def insert_query_def first_row_def
          demo_db_def demo_env_def Let_def numeral_2_eq_2)
  have l: "listings_query ?db' (SqlInt 3) = []"
    by (simp add: listings_query_def demo_db_def)
  have b: "bookings_query ?db' (SqlInt 3) = []"
    by (simp add: bookings_query_def demo_db_def)
  have c: "conversations_query ?db' (SqlInt 3) = []"
    by (simp add: conversations_query_def demo_db_def)
  have s: "users_id_seq demo_db = 3" by (simp add: demo_db_def)
  have g: "get ?db' ''cat'' =
     Inr \<lparr>user_fields = [(''id'', SqlInt 3), (''username'', SqlText ''cat''),
                         (''firstname'', SqlText ''Cat''), (''lastname'', SqlText ''Lee''),
                         (''email'', SqlText ''c@x.org'')],
          listings = [], bookings = [], conversations = []\<rparr>"
    using get_after_register [OF r] by (simp only: l b c s registration.simps)
  show ?thesis unfolding r fst_conv snd_conv g by simp
qed

subsection \<open>The statement that update sends, and its effect\<close>

text \<open>
  For a non-empty mapping with distinct keys among firstName, lastName, email and password,
  the statement built from the mapping is accepted, and it assigns the (re-hashed) mapping
  to every row with the given id.
\<close>

lemma rehash_password_keys: "map fst (rehash_password env salt data) = map fst data"
  by (auto simp: rehash_password_def update_keys split: option.splits dest: map_of_SomeD
           intro: rev_image_eqI)

lemma rehash_password_Nil: "(rehash_password env salt data = []) = (data = [])"
  by (auto simp: rehash_password_def split: option.splits)

lemma rehash_password_other:
  "k \<noteq> ''password'' \<Longrightarrow> map_of (rehash_password env salt data) k = map_of data k"
  by (simp add: rehash_password_def update_conv' split: option.splits)

lemma rehash_password_field:
  "map_of (rehash_password env salt data) ''password'' =
     map_option (\<lambda>p. if p \<noteq> [] then bcrypt_hash env p (BCRYPT_WORK_FACTOR env) salt else p)
       (map_of data ''password'')"
  by (simp add: rehash_password_def update_conv' split: option.splits)

lemma sqlForPartialUpdate_nonempty:
  "d \<noteq> [] \<Longrightarrow>
   sqlForPartialUpdate d [(''firstName'', ''first_name''), (''lastName'', ''last_name'')] =
     Inr (map (\<lambda>(idx, k). (column_of k, idx + 1)) (enumerate 0 (map fst d)), map snd d)"
  by (simp add: sqlForPartialUpdate_def column_of_def)

lemma param_at_value:
  "i < length vals \<Longrightarrow>
   param_at (map SqlText vals @ [SqlInt uid]) (i + 1) = Some (SqlText (vals ! i))"
  by (simp add: param_at_def nth_append)

lemma param_at_id:
  "param_at (map SqlText vals @ [SqlInt uid]) (length vals + 1) = Some (SqlInt uid)"
  by (simp add: param_at_def nth_append)

lemma fold_assign_enumerate:
  "(\<And>i. i < length xs \<Longrightarrow> param_at params (n + i + 1) = Some (SqlText (snd (xs ! i)))) \<Longrightarrow>
   fold (assign params) (map (\<lambda>(idx, k). (column_of k, idx + 1)) (enumerate n (map fst xs))) u =
     apply_fields xs u"
proof (induction xs arbitrary: n u)
  case Nil
  then show ?case by (simp add: apply_fields_def)
next
  case (Cons x xs)
  from Cons.prems [of 0] have h: "param_at params (n + 1) = Some (SqlText (snd x))" by simp
  have t: "\<And>i. i < length xs \<Longrightarrow> param_at params (Suc n + i + 1) = Some (SqlText (snd (xs ! i)))"
    using Cons.prems [of "Suc i" for i] by simp
  from Cons.IH [of "Suc n", OF t] h show ?case
    by (simp add: apply_fields_def assign_def)
qed

lemma column_of_updatable: "k \<in> updatable \<Longrightarrow> column_of k \<in> set text_columns"
  by (auto simp: updatable_def column_of_def text_columns_def)

lemma inj_on_column_of: "inj_on column_of updatable"
  by (auto simp: inj_on_def updatable_def column_of_def)

lemma map_fst_fragments:
  "map fst (map (\<lambda>(idx, k). (column_of k, idx + 1)) (enumerate n ks)) = map column_of ks"
  by (induction ks arbitrary: n) simp_all

lemma fragments_ok:
  assumes "set ks \<subseteq> updatable" "length ks = length vals"
  shows "list_all (fragment_ok (map SqlText vals @ [SqlInt uid]))
           (map (\<lambda>(idx, k). (column_of k, idx + 1)) (enumerate 0 ks))"
proof -
  have "fragment_ok (map SqlText vals @ [SqlInt uid]) (column_of (ks ! i), i + 1)"
    if "i < length ks" for i
  proof -
    from that assms have "ks ! i \<in> updatable" by (meson nth_mem subsetD)
    moreover from that assms have "i < length vals" by simp
    ultimately show ?thesis
      by (simp add: fragment_ok_def column_of_updatable param_at_value [simplified])
  qed
  then show ?thesis
    by (auto simp: list_all_iff in_set_enumerate_eq)
qed

lemma set_column_id: "u_id (set_column c v u) = u_id u"
  by (simp add: set_column_def)

lemma apply_fields_id: "u_id (apply_fields d u) = u_id u"
  by (induction d arbitrary: u) (simp_all add: apply_fields_def set_column_id)

lemma apply_fields_Cons:
  "apply_fields (kv # d) u = apply_fields d (set_column (column_of (fst kv)) (snd kv) u)"
  by (simp add: apply_fields_def)

lemma apply_fields_username:
  "fst ` set d \<subseteq> updatable \<Longrightarrow> u_username (apply_fields d u) = u_username u"
proof (induction d arbitrary: u)
  case Nil
  then show ?case by (simp add: apply_fields_def)
next
  case (Cons kv d)
  from Cons.prems have "fst kv \<in> updatable" by simp
  then have "u_username (set_column (column_of (fst kv)) (snd kv) u) = u_username u"
    by (auto simp: updatable_def column_of_def set_column_def)
  with Cons show ?case by (simp add: apply_fields_Cons)
qed

lemma apply_fields_first_name:
  "distinct (map fst d) \<Longrightarrow> fst ` set d \<subseteq> updatable \<Longrightarrow>
   u_first_name (apply_fields d u) =
     (case map_of d ''firstName'' of Some v \<Rightarrow> v | None \<Rightarrow> u_first_name u)"
proof (induction d arbitrary: u)
  case Nil
  then show ?case by (simp add: apply_fields_def)
next
  case (Cons kv d)
  obtain k v where kv: "kv = (k, v)" by (cases kv)
  from Cons.prems kv have k: "k \<in> updatable" and nk: "k \<notin> fst ` set d" by auto
  from nk have none: "k = ''firstName'' \<Longrightarrow> map_of d ''firstName'' = None"
    by (simp add: map_of_eq_None_iff)
  from k have sc: "u_first_name (set_column (column_of k) v u) =
                 (if k = ''firstName'' then v else u_first_name u)"
    by (auto simp: updatable_def column_of_def set_column_def)
  from Cons.prems kv have ih: "u_first_name (apply_fields d u') =
      (case map_of d ''firstName'' of Some w \<Rightarrow> w | None \<Rightarrow> u_first_name u')" for u'
    by (intro Cons.IH) auto
  show ?case
  proof (cases "k = ''firstName''")
    case True
    with none sc show ?thesis by (simp add: kv apply_fields_Cons ih)
  next
    case False
    then have "''firstName'' \<noteq> k" by blast
    with False sc show ?thesis by (simp add: kv apply_fields_Cons ih split: option.splits)
  qed
qed

lemma apply_fields_last_name:
  "distinct (map fst d) \<Longrightarrow> fst ` set d \<subseteq> updatable \<Longrightarrow>
   u_last_name (apply_fields d u) =
     (case map_of d ''lastName'' of Some v \<Rightarrow> v | None \<Rightarrow> u_last_name u)"
proof (induction d arbitrary: u)
  case Nil
  then show ?case by (simp add: apply_fields_def)
next
  case (Cons kv d)
  obtain k v where kv: "kv = (k, v)" by (cases kv)
  from Cons.prems kv have k: "k \<in> updatable" and nk: "k \<notin> fst ` set d" by auto
  from nk have none: "k = ''lastName'' \<Longrightarrow> map_of d ''lastName'' = None"
    by (simp add: map_of_eq_None_iff)
  from k have sc: "u_last_name (set_column (column_of k) v u) =
                 (if k = ''lastName'' then v else u_last_name u)"
    by (auto simp: updatable_def column_of_def set_column_def)
  from Cons.prems kv have ih: "u_last_name (apply_fields d u') =
      (case map_of d ''lastName'' of Some w \<Rightarrow> w | None \<Rightarrow> u_last_name u')" for u'
    by (intro Cons.IH) auto
  show ?case
  proof (cases "k = ''lastName''")
    case True
    with none sc show ?thesis by (simp add: kv apply_fields_Cons ih)
  next
    case False
    then have "''lastName'' \<noteq> k" by blast
    with False sc show ?thesis by (simp add: kv apply_fields_Cons ih split: option.splits)
  qed
qed

lemma apply_fields_email:
  "distinct (map fst d) \<Longrightarrow> fst ` set d \<subseteq> updatable \<Longrightarrow>
   u_email (apply_fields d u) =
     (case map_of d ''email'' of Some v \<Rightarrow> v | None \<Rightarrow> u_email u)"
proof (induction d arbitrary: u)
  case Nil
  then show ?case by (simp add: apply_fields_def)
next
  case (Cons kv d)
  obtain k v where kv: "kv = (k, v)" by (cases kv)
  from Cons.prems kv have k: "k \<in> updatable" and nk: "k \<notin> fst ` set d" by auto
  from nk have none: "k = ''email'' \<Longrightarrow> map_of d ''email'' = None"
    by (simp add: map_of_eq_None_iff)
  from k have sc: "u_email (set_column (column_of k) v u) =
                 (if k = ''email'' then v else u_email u)"
    by (auto simp: updatable_def column_of_def set_column_def)
  from Cons.prems kv have ih: "u_email (apply_fields d u') =
      (case map_of d ''email'' of Some w \<Rightarrow> w | None \<Rightarrow> u_email u')" for u'
    by (intro Cons.IH) auto
  show ?case
  proof (cases "k = ''email''")
    case True
    with none sc show ?thesis by (simp add: kv apply_fields_Cons ih)
  next
    case False
    then have "''email'' \<noteq> k" by blast
    with False sc show ?thesis by (simp add: kv apply_fields_Cons ih split: option.splits)
  qed
qed

lemma apply_fields_password:
  "distinct (map fst d) \<Longrightarrow> fst ` set d \<subseteq> updatable \<Longrightarrow>
   u_password (apply_fields d u) =
     (case map_of d ''password'' of Some v \<Rightarrow> v | None \<Rightarrow> u_password u)"
proof (induction d arbitrary: u)
  case Nil
  then show ?case by (simp add: apply_fields_def)
next
  case (Cons kv d)
  obtain k v where kv: "kv = (k, v)" by (cases kv)
  from Cons.prems kv have k: "k \<in> updatable" and nk: "k \<notin> fst ` set d" by auto
  from nk have none: "k = ''password'' \<Longrightarrow> map_of d ''password'' = None"
    by (simp add: map_of_eq_None_iff)
  from k have sc: "u_password (set_column (column_of k) v u) =
                 (if k = ''password'' then v else u_password u)"
    by (auto simp: updatable_def column_of_def set_column_def)
  from Cons.prems kv have ih: "u_password (apply_fields d u') =
      (case map_of d ''password'' of Some w \<Rightarrow> w | None \<Rightarrow> u_password u')" for u'
    by (intro Cons.IH) auto
  show ?case
  proof (cases "k = ''password''")
    case True
    with none sc show ?thesis by (simp add: kv apply_fields_Cons ih)
  next
    case False
    then have "''password'' \<noteq> k" by blast
    with False sc show ?thesis by (simp add: kv apply_fields_Cons ih split: option.splits)
  qed
qed

lemma find_map_preserving:
  "(\<And>x. P (g x) = P x) \<Longrightarrow> find P (map g xs) = map_option g (find P xs)"
  by (induction xs) simp_all

lemma update_query_wellformed:
  assumes "d \<noteq> []" "distinct (map fst d)" "fst ` set d \<subseteq> updatable"
  shows "update_query db (map (\<lambda>(idx, k). (column_of k, idx + 1)) (enumerate 0 (map fst d)))
           (length (map snd d) + 1) (map SqlText (map snd d) @ [SqlInt uid]) =
         Inr (map returning_row
                (filter (\<lambda>u. u_id u = uid)
                   (map (\<lambda>u. if u_id u = uid then apply_fields d u else u) (users_tbl db))),
              db\<lparr>users_tbl := map (\<lambda>u. if u_id u = uid then apply_fields d u else u)
                                  (users_tbl db)\<rparr>)"
proof -
  let ?frags = "map (\<lambda>(idx, k). (column_of k, idx + 1)) (enumerate 0 (map fst d))"
  let ?params = "map SqlText (map snd d) @ [SqlInt uid]"
  have ne: "?frags \<noteq> []" using assms(1) by (cases d) simp_all
  have ok: "list_all (fragment_ok ?params) ?frags"
    using assms(3) by (intro fragments_ok) auto
  have "distinct (map column_of (map fst d))"
  proof -
    from assms(3) have "set (map fst d) \<subseteq> updatable" by simp
    with inj_on_column_of have "inj_on column_of (set (map fst d))" by (rule inj_on_subset)
    with assms(2) show ?thesis by (simp only: distinct_map simp_thms)
  qed
  then have di: "distinct (map fst ?frags)" by (simp only: map_fst_fragments)
  have fo: "fold (assign ?params) ?frags u = apply_fields d u" for u
  proof (rule fold_assign_enumerate)
    fix i assume "i < length d"
    then show "param_at ?params (0 + i + 1) = Some (SqlText (snd (d ! i)))"
      using param_at_value [of i "map snd d" uid] by simp
  qed
  have pid: "param_at ?params (length (map snd d) + 1) = Some (SqlInt uid)"
    by (rule param_at_id)
  show ?thesis
    unfolding update_query_def
    by (simp only: ne ok di pid fo Let_def not_False_eq_True simp_thms if_True
          option.case sqlval.case) simp
qed

lemma update_wellformed:
  assumes "data \<noteq> []" "distinct (map fst data)" "fst ` set data \<subseteq> updatable"
  shows "update env salt db uid data =
     (case find (\<lambda>u. u_id u = uid) (users_tbl db) of
        None \<Rightarrow> Inl (NotFoundError (''No user: '' @ string_of_int uid))
      | Some u \<Rightarrow> Inr (returning_row (apply_fields (rehash_password env salt data) u)),
      db\<lparr>users_tbl := map (\<lambda>u. if u_id u = uid
                                 then apply_fields (rehash_password env salt data) u else u)
                          (users_tbl db)\<rparr>)"
proof -
  let ?d = "rehash_password env salt data"
  let ?g = "\<lambda>u. if u_id u = uid then apply_fields ?d u else u"
  have d1: "?d \<noteq> []" using assms(1) by (simp add: rehash_password_Nil)
  have d2: "distinct (map fst ?d)" using assms(2) by (simp add: rehash_password_keys)
  have "set (map fst ?d) = set (map fst data)" by (simp only: rehash_password_keys)
  with assms(3) have d3: "fst ` set ?d \<subseteq> updatable" by simp
  have fr: "first_row (map returning_row
                (filter (\<lambda>u. u_id u = uid) (map ?g (users_tbl db)))) =
            map_option (\<lambda>u. returning_row (?g u)) (find (\<lambda>u. u_id u = uid) (users_tbl db))"
    by (simp add: first_row_map_filter find_map_preserving apply_fields_id
          option.map_comp comp_def)
  have del: "AList.delete ''password'' (returning_row u) = returning_row u" for u
    by (simp add: returning_row_def)
  have uq: "update_query db
              (map (\<lambda>(idx, k). (column_of k, idx + 1)) (enumerate 0 (map fst ?d)))
              (length (map snd ?d) + 1) (map SqlText (map snd ?d) @ [SqlInt uid]) =
            Inr (map returning_row (filter (\<lambda>u. u_id u = uid) (map ?g (users_tbl db))),
                 db\<lparr>users_tbl := map ?g (users_tbl db)\<rparr>)"
    by (rule update_query_wellformed [OF d1 d2 d3])
  show ?thesis
  proof (cases "find (\<lambda>u. u_id u = uid) (users_tbl db)")
    case None
    with fr have "first_row (map returning_row
                (filter (\<lambda>u. u_id u = uid) (map ?g (users_tbl db)))) = None" by simp
    with None show ?thesis
      unfolding update_def sqlForPartialUpdate_nonempty [OF d1] sum.case prod.case Let_def uq
      by simp
  next
    case (Some u)
    then have "u_id u = uid" by (auto simp: find_Some_iff)
    with fr Some have "first_row (map returning_row
                (filter (\<lambda>u. u_id u = uid) (map ?g (users_tbl db)))) =
              Some (returning_row (apply_fields ?d u))" by simp
    with Some show ?thesis
      unfolding update_def sqlForPartialUpdate_nonempty [OF d1] sum.case prod.case Let_def uq
      by (simp add: del)
  qed
qed

subsection \<open>Further facts used below\<close>

lemma update_result_shape:
  assumes "data \<noteq> []" "distinct (map fst data)" "fst ` set data \<subseteq> updatable"
  shows "(find (\<lambda>u. u_id u = uid) (users_tbl db) = None \<longrightarrow>
            fst (update env salt db uid data) =
              Inl (NotFoundError (''No user: '' @ string_of_int uid)))
       \<and> (\<forall>u. find (\<lambda>u. u_id u = uid) (users_tbl db) = Some u \<longrightarrow>
            fst (update env salt db uid data) =
              Inr [(''id'', SqlInt uid),
                   (''firstName'', SqlText (case map_of data ''firstName'' of
                                             Some v \<Rightarrow> v | None \<Rightarrow> u_first_name u)),
                   (''lastName'', SqlText (case map_of data ''lastName'' of
                                            Some v \<Rightarrow> v | None \<Rightarrow> u_last_name u)),
                   (''email'', SqlText (case map_of data ''email'' of
                                         Some v \<Rightarrow> v | None \<Rightarrow> u_email u))])"
proof -
  let ?d = "rehash_password env salt data"
  have d2: "distinct (map fst ?d)" using assms(2) by (simp add: rehash_password_keys)
  have "set (map fst ?d) = set (map fst data)" by (simp only: rehash_password_keys)
  with assms(3) have d3: "fst ` set ?d \<subseteq> updatable" by simp
  have r: "returning_row (apply_fields ?d u) =
             [(''id'', SqlInt (u_id u)),
              (''firstName'', SqlText (case map_of data ''firstName'' of
                                        Some v \<Rightarrow> v | None \<Rightarrow> u_first_name u)),
              (''lastName'', SqlText (case map_of data ''lastName'' of
                                       Some v \<Rightarrow> v | None \<Rightarrow> u_last_name u)),
              (''email'', SqlText (case map_of data ''email'' of
                                    Some v \<Rightarrow> v | None \<Rightarrow> u_email u))]" for u
    by (simp add: returning_row_def apply_fields_id apply_fields_first_name [OF d2 d3]
          apply_fields_last_name [OF d2 d3] apply_fields_email [OF d2 d3]
          rehash_password_other)
  show ?thesis
  proof (cases "find (\<lambda>u. u_id u = uid) (users_tbl db)")
    case None
    then show ?thesis by (simp add: update_wellformed [OF assms])
  next
    case (Some u)
    then have "u_id u = uid" by (auto simp: find_Some_iff)
    with Some show ?thesis by (simp add: update_wellformed [OF assms] r)
  qed
qed

lemma map_of_absent: "k \<notin> fst ` set d \<Longrightarrow> map_of d k = None"
  by (simp add: map_of_eq_None_iff)

lemma authenticate_eq:
  "authenticate env db uname pw =
     (case find (\<lambda>u. u_username u = uname) (users_tbl db) of
        None \<Rightarrow> Inl (UnauthorizedError ''Invalid username/password'')
      | Some u \<Rightarrow>
          if bcrypt_compare env pw (u_password u)
          then Inr [(''id'', SqlInt (u_id u)), (''username'', SqlText (u_username u)),
                    (''firstName'', SqlText (u_first_name u)),
                    (''lastName'', SqlText (u_last_name u)),
                    (''email'', SqlText (u_email u))]
          else Inl (UnauthorizedError ''Invalid username/password''))"
  by (simp add: authenticate_def authenticate_query_def first_row_map_filter
           split: option.splits)

lemma find_distinct_key:
  "distinct (map f xs) \<Longrightarrow> x \<in> set xs \<Longrightarrow> find (\<lambda>y. f y = f x) xs = Some x"
  by (induction xs) (auto simp: image_iff)

subsection \<open>The row that update returns\<close>

text \<open>
  C2. The claim is that \<open>update\<close> on an existing id returns the public user record with
  id, username, first name, last name and email. Evaluated on the storage above, for the
  user with id 2 and the mapping \<open>{firstName: "Ann"}\<close>, \<open>update\<close> returns a row with
  the properties id, firstName, lastName and email only: the RETURNING list of the statement
  leaves the username out, so the row has no \<open>username\<close> property.
\<close>

theorem update_result_has_no_username:
  "fst (update demo_env 3 demo_db 2 [(''firstName'', ''Ann'')]) =
     Inr [(''id'', SqlInt 2), (''firstName'', SqlText ''Ann''),
          (''lastName'', SqlText ''Reed''), (''email'', SqlText ''amy@x.org'')]
   \<and> map_of [(''id'', SqlInt 2), (''firstName'', SqlText ''Ann''),
          (''lastName'', SqlText ''Reed''), (''email'', SqlText ''amy@x.org'')] ''username'' = None"
proof -
  have f: "find (\<lambda>u. u_id u = 2) (users_tbl demo_db) =
             Some \<lparr>u_id = 2, u_username = ''amy'', u_password = ''..$newpw'',
                   u_first_name = ''Amy'', u_last_name = ''Reed'', u_email = ''amy@x.org''\<rparr>"
    by (simp add: demo_db_def)
  have "[(''firstName'', ''Ann'')] \<noteq> []" "distinct (map fst [(''firstName'', ''Ann'')])"
       "fst ` set [(''firstName'', ''Ann'')] \<subseteq> updatable"
    by (simp_all add: updatable_def)
  from update_result_shape [OF this, of 2 demo_db demo_env 3] f show ?thesis by simp
qed

subsection \<open>The frame of a partial update\<close>

text \<open>
  C9. For every non-empty mapping with distinct keys among firstName, lastName, email and
  password, \<open>update\<close> keeps the number and the order of the rows of \<open>users\<close>; a row with
  another id is unchanged; on every row the id and the username are unchanged, and each of
  first name, last name, email and password is unchanged when its field is absent from the
  mapping; the other tables and the id sequence are unchanged. When the password is absent
  from the mapping, the bind values of the statement are exactly the values of the mapping
  and no fragment of the SET clause names the password column.
\<close>

theorem update_frame:
  assumes "data \<noteq> []" "distinct (map fst data)" "fst ` set data \<subseteq> updatable"
  shows "length (users_tbl (snd (update env salt db uid data))) = length (users_tbl db)
   \<and> (\<forall>i < length (users_tbl db).
        (u_id (users_tbl db ! i) \<noteq> uid \<longrightarrow>
           users_tbl (snd (update env salt db uid data)) ! i = users_tbl db ! i)
      \<and> u_id (users_tbl (snd (update env salt db uid data)) ! i) = u_id (users_tbl db ! i)
      \<and> u_username (users_tbl (snd (update env salt db uid data)) ! i) =
          u_username (users_tbl db ! i)
      \<and> (''firstName'' \<notin> fst ` set data \<longrightarrow>
           u_first_name (users_tbl (snd (update env salt db uid data)) ! i) =
           u_first_name (users_tbl db ! i))
      \<and> (''lastName'' \<notin> fst ` set data \<longrightarrow>
           u_last_name (users_tbl (snd (update env salt db uid data)) ! i) =
           u_last_name (users_tbl db ! i))
      \<and> (''email'' \<notin> fst ` set data \<longrightarrow>
           u_email (users_tbl (snd (update env salt db uid data)) ! i) =
           u_email (users_tbl db ! i))
      \<and> (''password'' \<notin> fst ` set data \<longrightarrow>
           u_password (users_tbl (snd (update env salt db uid data)) ! i) =
           u_password (users_tbl db ! i)))
   \<and> listings_tbl (snd (update env salt db uid data)) = listings_tbl db
   \<and> bookings_tbl (snd (update env salt db uid data)) = bookings_tbl db
   \<and> conversations_tbl (snd (update env salt db uid data)) = conversations_tbl db
   \<and> users_id_seq (snd (update env salt db uid data)) = users_id_seq db
   \<and> (''password'' \<notin> fst ` set data \<longrightarrow>
        (\<exists>setCols. sqlForPartialUpdate (rehash_password env salt data)
                      [(''firstName'', ''first_name''), (''lastName'', ''last_name'')] =
                    Inr (setCols, map snd data)
                  \<and> ''password'' \<notin> fst ` set setCols))"
proof -
  let ?d = "rehash_password env salt data"
  let ?g = "\<lambda>u. if u_id u = uid then apply_fields ?d u else u"
  have d1: "?d \<noteq> []" using assms(1) by (simp add: rehash_password_Nil)
  have d2: "distinct (map fst ?d)" using assms(2) by (simp add: rehash_password_keys)
  have "set (map fst ?d) = set (map fst data)" by (simp only: rehash_password_keys)
  with assms(3) have d3: "fst ` set ?d \<subseteq> updatable" by simp
  have db': "snd (update env salt db uid data) = db\<lparr>users_tbl := map ?g (users_tbl db)\<rparr>"
    by (simp add: update_wellformed [OF assms])
  have g_id: "u_id (?g u) = u_id u" for u by (simp add: apply_fields_id)
  have g_un: "u_username (?g u) = u_username u" for u
    by (simp add: apply_fields_username [OF d3])
  have g_fn: "''firstName'' \<notin> fst ` set data \<Longrightarrow> u_first_name (?g u) = u_first_name u" for u
    by (simp add: apply_fields_first_name [OF d2 d3] rehash_password_other map_of_absent)
  have g_ln: "''lastName'' \<notin> fst ` set data \<Longrightarrow> u_last_name (?g u) = u_last_name u" for u
    by (simp add: apply_fields_last_name [OF d2 d3] rehash_password_other map_of_absent)
  have g_em: "''email'' \<notin> fst ` set data \<Longrightarrow> u_email (?g u) = u_email u" for u
    by (simp add: apply_fields_email [OF d2 d3] rehash_password_other map_of_absent)
  have g_pw: "''password'' \<notin> fst ` set data \<Longrightarrow> u_password (?g u) = u_password u" for u
    by (simp add: apply_fields_password [OF d2 d3] rehash_password_field map_of_absent)
  have rows: "\<forall>i < length (users_tbl db).
        (u_id (users_tbl db ! i) \<noteq> uid \<longrightarrow>
           users_tbl (snd (update env salt db uid data)) ! i = users_tbl db ! i)
      \<and> u_id (users_tbl (snd (update env salt db uid data)) ! i) = u_id (users_tbl db ! i)
      \<and> u_username (users_tbl (snd (update env salt db uid data)) ! i) =
          u_username (users_tbl db ! i)
      \<and> (''firstName'' \<notin> fst ` set data \<longrightarrow>
           u_first_name (users_tbl (snd (update env salt db uid data)) ! i) =
           u_first_name (users_tbl db ! i))
      \<and> (''lastName'' \<notin> fst ` set data \<longrightarrow>
           u_last_name (users_tbl (snd (update env salt db uid data)) ! i) =
           u_last_name (users_tbl db ! i))
      \<and> (''email'' \<notin> fst ` set data \<longrightarrow>
           u_email (users_tbl (snd (update env salt db uid data)) ! i) =
           u_email (users_tbl db ! i))
      \<and> (''password'' \<notin> fst ` set data \<longrightarrow>
           u_password (users_tbl (snd (update env salt db uid data)) ! i) =
           u_password (users_tbl db ! i))"
  proof (intro allI impI)
    fix i assume i: "i < length (users_tbl db)"
    then have nth: "users_tbl (snd (update env salt db uid data)) ! i = ?g (users_tbl db ! i)"
      by (simp add: db')
    show "(u_id (users_tbl db ! i) \<noteq> uid \<longrightarrow>
           users_tbl (snd (update env salt db uid data)) ! i = users_tbl db ! i)
      \<and> u_id (users_tbl (snd (update env salt db uid data)) ! i) = u_id (users_tbl db ! i)
      \<and> u_username (users_tbl (snd (update env salt db uid data)) ! i) =
          u_username (users_tbl db ! i)
      \<and> (''firstName'' \<notin> fst ` set data \<longrightarrow>
           u_first_name (users_tbl (snd (update env salt db uid data)) ! i) =
           u_first_name (users_tbl db ! i))
      \<and> (''lastName'' \<notin> fst ` set data \<longrightarrow>
           u_last_name (users_tbl (snd (update env salt db uid data)) ! i) =
           u_last_name (users_tbl db ! i))
      \<and> (''email'' \<notin> fst ` set data \<longrightarrow>
           u_email (users_tbl (snd (update env salt db uid data)) ! i) =
           u_email (users_tbl db ! i))
      \<and> (''password'' \<notin> fst ` set data \<longrightarrow>
           u_password (users_tbl (snd (update env salt db uid data)) ! i) =
           u_password (users_tbl db ! i))"
      unfolding nth using g_id g_un g_fn g_ln g_em g_pw by simp
  qed
  have others: "listings_tbl (snd (update env salt db uid data)) = listings_tbl db
   \<and> bookings_tbl (snd (update env salt db uid data)) = bookings_tbl db
   \<and> conversations_tbl (snd (update env salt db uid data)) = conversations_tbl db
   \<and> users_id_seq (snd (update env salt db uid data)) = users_id_seq db"
    by (simp add: db')
  have len: "length (users_tbl (snd (update env salt db uid data))) = length (users_tbl db)"
    by (simp add: db')
  have stmt: "''password'' \<notin> fst ` set data \<longrightarrow>
        (\<exists>setCols. sqlForPartialUpdate (rehash_password env salt data)
                      [(''firstName'', ''first_name''), (''lastName'', ''last_name'')] =
                    Inr (setCols, map snd data)
                  \<and> ''password'' \<notin> fst ` set setCols)"
  proof
    assume a: "''password'' \<notin> fst ` set data"
    then have same: "?d = data"
      by (simp add: rehash_password_def map_of_absent)
    have "column_of k \<noteq> ''password''" if "k \<in> fst ` set data" for k
    proof -
      from that a have "k \<noteq> ''password''" by blast
      moreover from that assms(3) have "k \<in> updatable" by blast
      ultimately show ?thesis by (auto simp: updatable_def column_of_def)
    qed
    then have "''password'' \<notin> set (map column_of (map fst data))" by force
    moreover have "fst ` set (map (\<lambda>(idx, k). (column_of k, idx + 1))
                                 (enumerate 0 (map fst data))) =
                   set (map column_of (map fst data))"
      using map_fst_fragments [of 0 "map fst data"] by (metis list.set_map)
    ultimately have "''password'' \<notin> fst ` set (map (\<lambda>(idx, k). (column_of k, idx + 1))
                                          (enumerate 0 (map fst data)))"
      by (simp only: not_False_eq_True)
    with sqlForPartialUpdate_nonempty [OF assms(1)] same show
      "\<exists>setCols. sqlForPartialUpdate (rehash_password env salt data)
                      [(''firstName'', ''first_name''), (''lastName'', ''last_name'')] =
                    Inr (setCols, map snd data)
                  \<and> ''password'' \<notin> fst ` set setCols"
      by simp
  qed
  from len rows others stmt show ?thesis by blast
qed

theorem update_frame_witness:
  "users_tbl (snd (update demo_env 3 demo_db 2 [(''firstName'', ''Ann'')])) ! 0 =
     users_tbl demo_db ! 0
   \<and> u_last_name (users_tbl (snd (update demo_env 3 demo_db 2 [(''firstName'', ''Ann'')])) ! 1) =
       ''Reed''
   \<and> u_email (users_tbl (snd (update demo_env 3 demo_db 2 [(''firstName'', ''Ann'')])) ! 1) =
       ''amy@x.org''
   \<and> u_password (users_tbl (snd (update demo_env 3 demo_db 2 [(''firstName'', ''Ann'')])) ! 1) =
       ''..$newpw''
   \<and> listings_tbl (snd (update demo_env 3 demo_db 2 [(''firstName'', ''Ann'')])) =
       listings_tbl demo_db"
proof -
  have h: "[(''firstName'', ''Ann'')] \<noteq> []" "distinct (map fst [(''firstName'', ''Ann'')])"
       "fst ` set [(''firstName'', ''Ann'')] \<subseteq> updatable"
    by (simp_all add: updatable_def)
  note f = update_frame [OF h, of demo_env 3 demo_db 2]
  from f have rows: "\<forall>i < length (users_tbl demo_db).
        (u_id (users_tbl demo_db ! i) \<noteq> 2 \<longrightarrow>
           users_tbl (snd (update demo_env 3 demo_db 2 [(''firstName'', ''Ann'')])) ! i =
           users_tbl demo_db ! i)
      \<and> (''lastName'' \<notin> fst ` set [(''firstName'', ''Ann'')] \<longrightarrow>
           u_last_name (users_tbl (snd (update demo_env 3 demo_db 2 [(''firstName'', ''Ann'')])) ! i) =
           u_last_name (users_tbl demo_db ! i))
      \<and> (''email'' \<notin> fst ` set [(''firstName'', ''Ann'')] \<longrightarrow>
           u_email (users_tbl (snd (update demo_env 3 demo_db 2 [(''firstName'', ''Ann'')])) ! i) =
           u_email (users_tbl demo_db ! i))
      \<and> (''password'' \<notin> fst ` set [(''firstName'', ''Ann'')] \<longrightarrow>
           u_password (users_tbl (snd (update demo_env 3 demo_db 2 [(''firstName'', ''Ann'')])) ! i) =
           u_password (users_tbl demo_db ! i))"
    by blast
  from f have l: "listings_tbl (snd (update demo_env 3 demo_db 2 [(''firstName'', ''Ann'')])) =
       listings_tbl demo_db" by blast
  from rows [rule_format, of 0] rows [rule_format, of 1] l show ?thesis
    by (simp add: demo_db_def)
qed

subsection \<open>A password that is present and falsy\<close>



subsection \<open>Changing the password\<close>

text \<open>
  C6, with the failure for the old password tied to the comparison. Let the usernames in
  storage be distinct, let a user with the given id exist, let the new password be
  non-empty, and let the hasher verify the new password against the digest made from it.
  Then \<open>update\<close> with the mapping \<open>{password: newpw}\<close> succeeds, every row with that
  id stores the digest of the new password (not the password), \<open>authenticate\<close> with the
  new password then succeeds, and \<open>authenticate\<close> with any other text, the old password
  among them, then fails with \<open>UnauthorizedError\<close> exactly when the hasher does not
  verify that text against the new digest.
\<close>

theorem update_password_then_authenticate:
  assumes "distinct (map u_username (users_tbl db))"
    and "u \<in> set (users_tbl db)" and "u_id u = uid"
    and "newpw \<noteq> []"
    and "bcrypt_compare env newpw (bcrypt_hash env newpw (BCRYPT_WORK_FACTOR env) salt)"
  shows "\<exists>row db'. update env salt db uid [(''password'', newpw)] = (Inr row, db')
     \<and> (\<forall>u' \<in> set (users_tbl db'). u_id u' = uid \<longrightarrow>
           u_password u' = bcrypt_hash env newpw (BCRYPT_WORK_FACTOR env) salt)
     \<and> authenticate env db' (u_username u) newpw =
           Inr [(''id'', SqlInt uid), (''username'', SqlText (u_username u)),
                (''firstName'', SqlText (u_first_name u)),
                (''lastName'', SqlText (u_last_name u)),
                (''email'', SqlText (u_email u))]
     \<and> (\<forall>oldpw. authenticate env db' (u_username u) oldpw =
           (if bcrypt_compare env oldpw (bcrypt_hash env newpw (BCRYPT_WORK_FACTOR env) salt)
            then Inr [(''id'', SqlInt uid), (''username'', SqlText (u_username u)),
                      (''firstName'', SqlText (u_first_name u)),
                      (''lastName'', SqlText (u_last_name u)),
                      (''email'', SqlText (u_email u))]
            else Inl (UnauthorizedError ''Invalid username/password'')))"
proof -
  let ?h = "bcrypt_hash env newpw (BCRYPT_WORK_FACTOR env) salt"
  let ?g = "\<lambda>x. if u_id x = uid then x\<lparr>u_password := ?h\<rparr> else x"
  let ?db' = "db\<lparr>users_tbl := map ?g (users_tbl db)\<rparr>"
  let ?pub = "[(''id'', SqlInt uid), (''username'', SqlText (u_username u)),
                (''firstName'', SqlText (u_first_name u)),
                (''lastName'', SqlText (u_last_name u)),
                (''email'', SqlText (u_email u))]"
  have wf: "[(''password'', newpw)] \<noteq> []" "distinct (map fst [(''password'', newpw)])"
    "fst ` set [(''password'', newpw)] \<subseteq> updatable"
    by (simp_all add: updatable_def)
  have rh: "rehash_password env salt [(''password'', newpw)] = [(''password'', ?h)]"
    using assms(4) by (simp add: rehash_password_def)
  have ap: "apply_fields [(''password'', ?h)] x = x\<lparr>u_password := ?h\<rparr>" for x
    by (simp add: apply_fields_def column_of_def set_column_def)
  from assms(2,3) have "find (\<lambda>x. u_id x = uid) (users_tbl db) \<noteq> None"
    by (auto simp: find_None_iff)
  then obtain v where v: "find (\<lambda>x. u_id x = uid) (users_tbl db) = Some v" by blast
  have upd: "update env salt db uid [(''password'', newpw)] =
               (Inr (returning_row (v\<lparr>u_password := ?h\<rparr>)), ?db')"
    by (simp add: update_wellformed [OF wf] rh ap v)
  have stored: "\<forall>u' \<in> set (users_tbl ?db'). u_id u' = uid \<longrightarrow> u_password u' = ?h"
  proof
    fix u' assume "u' \<in> set (users_tbl ?db')"
    then have "u' \<in> ?g ` set (users_tbl db)" by simp
    then obtain x where x: "u' = ?g x" by (rule imageE)
    show "u_id u' = uid \<longrightarrow> u_password u' = ?h"
      unfolding x by (cases "u_id x = uid") simp_all
  qed
  have "find (\<lambda>x. u_username x = u_username u) (users_tbl db) = Some u"
    using assms(1,2) by (rule find_distinct_key)
  moreover have "find (\<lambda>x. u_username x = u_username u) (map ?g (users_tbl db)) =
                   map_option ?g (find (\<lambda>x. u_username x = u_username u) (users_tbl db))"
    by (rule find_map_preserving) simp
  ultimately
  have "find (\<lambda>x. u_username x = u_username u) (map ?g (users_tbl db)) = Some (?g u)"
    by (simp only: option.map)
  with assms(3) have f: "find (\<lambda>x. u_username x = u_username u) (map ?g (users_tbl db)) =
                  Some (u\<lparr>u_password := ?h\<rparr>)" by simp
  have a2: "\<forall>oldpw. authenticate env ?db' (u_username u) oldpw =
           (if bcrypt_compare env oldpw ?h then Inr ?pub
            else Inl (UnauthorizedError ''Invalid username/password''))"
    using assms(3) by (simp add: authenticate_eq f)
  have a1: "authenticate env ?db' (u_username u) newpw = Inr ?pub"
    using a2 assms(5) by simp
  show ?thesis
    apply (rule exI [of _ "returning_row (v\<lparr>u_password := ?h\<rparr>)"])
    apply (rule exI [of _ ?db'])
    apply (intro conjI)
       apply (rule upd)
      apply (rule stored)
     apply (rule a1)
    apply (rule a2)
    done
qed

theorem update_password_then_authenticate_witness:
  "authenticate demo_env (snd (update demo_env 3 demo_db 1 [(''password'', ''newpw'')]))
          ''bob'' ''newpw'' =
        Inr [(''id'', SqlInt 1), (''username'', SqlText ''bob''),
             (''firstName'', SqlText ''Bob''), (''lastName'', SqlText ''Stone''),
             (''email'', SqlText ''bob@x.org'')]
   \<and> authenticate demo_env (snd (update demo_env 3 demo_db 1 [(''password'', ''newpw'')]))
          ''bob'' ''hunter2'' = Inl (UnauthorizedError ''Invalid username/password'')
   \<and> map u_password (users_tbl (snd (update demo_env 3 demo_db 1 [(''password'', ''newpw'')]))) =
        [''...$newpw'', ''..$newpw'']
   \<and> authenticate demo_env demo_db ''bob'' ''hunter2'' =
        Inr [(''id'', SqlInt 1), (''username'', SqlText ''bob''),
             (''firstName'', SqlText ''Bob''), (''lastName'', SqlText ''Stone''),
             (''email'', SqlText ''bob@x.org'')]"
proof -
  let ?bob = "\<lparr>u_id = 1, u_username = ''bob'', u_password = ''.$hunter2'',
                u_first_name = ''Bob'', u_last_name = ''Stone'', u_email = ''bob@x.org''\<rparr>"
  have hsh: "bcrypt_hash demo_env ''newpw'' (BCRYPT_WORK_FACTOR demo_env) 3 = ''...$newpw''"
    by (simp add: demo_env_def numeral_3_eq_3)
  have h: "distinct (map u_username (users_tbl demo_db))" "?bob \<in> set (users_tbl demo_db)"
    "u_id ?bob = 1" "''newpw'' \<noteq> []"
    by (simp_all add: demo_db_def)
  have c: "bcrypt_compare demo_env ''newpw''
             (bcrypt_hash demo_env ''newpw'' (BCRYPT_WORK_FACTOR demo_env) 3)"
    unfolding hsh by (simp add: demo_env_def)
  have n: "\<not> bcrypt_compare demo_env ''hunter2''
             (bcrypt_hash demo_env ''newpw'' (BCRYPT_WORK_FACTOR demo_env) 3)"
    unfolding hsh by (simp add: demo_env_def)
  have before: "authenticate demo_env demo_db ''bob'' ''hunter2'' =
        Inr [(''id'', SqlInt 1), (''username'', SqlText ''bob''),
             (''firstName'', SqlText ''Bob''), (''lastName'', SqlText ''Stone''),
             (''email'', SqlText ''bob@x.org'')]"
    by (simp add: authenticate_eq demo_db_def demo_env_def)
  have wf: "[(''password'', ''newpw'')] \<noteq> []" "distinct (map fst [(''password'', ''newpw'')])"
    "fst ` set [(''password'', ''newpw'')] \<subseteq> updatable"
    by (simp_all add: updatable_def)
  have len: "length (users_tbl (snd (update demo_env 3 demo_db 1 [(''password'', ''newpw'')]))) = 2"
    and other: "users_tbl (snd (update demo_env 3 demo_db 1 [(''password'', ''newpw'')])) ! 1 =
                  users_tbl demo_db ! 1"
    and id0: "u_id (users_tbl (snd (update demo_env 3 demo_db 1 [(''password'', ''newpw'')])) ! 0) = 1"
    by (simp_all add: update_wellformed [OF wf] demo_db_def apply_fields_id)
  from update_password_then_authenticate [OF h c]
  obtain row db' where
    u: "update demo_env 3 demo_db 1 [(''password'', ''newpw'')] = (Inr row, db')"
    and st: "\<forall>u' \<in> set (users_tbl db'). u_id u' = 1 \<longrightarrow>
           u_password u' = bcrypt_hash demo_env ''newpw'' (BCRYPT_WORK_FACTOR demo_env) 3"
    and a1: "authenticate demo_env db' (u_username ?bob) ''newpw'' =
           Inr [(''id'', SqlInt 1), (''username'', SqlText (u_username ?bob)),
                (''firstName'', SqlText (u_first_name ?bob)),
                (''lastName'', SqlText (u_last_name ?bob)),
                (''email'', SqlText (u_email ?bob))]"
    and a2: "\<forall>oldpw. authenticate demo_env db' (u_username ?bob) oldpw =
           (if bcrypt_compare demo_env oldpw
                 (bcrypt_hash demo_env ''newpw'' (BCRYPT_WORK_FACTOR demo_env) 3)
            then Inr [(''id'', SqlInt 1), (''username'', SqlText (u_username ?bob)),
                      (''firstName'', SqlText (u_first_name ?bob)),
                      (''lastName'', SqlText (u_last_name ?bob)),
                      (''email'', SqlText (u_email ?bob))]
            else Inl (UnauthorizedError ''Invalid username/password''))"
    by blast
  have db': "snd (update demo_env 3 demo_db 1 [(''password'', ''newpw'')]) = db'"
    by (simp add: u)
  from a2 n have a3: "authenticate demo_env db' ''bob'' ''hunter2'' =
                        Inl (UnauthorizedError ''Invalid username/password'')"
    by simp
  from len other id0 have l2: "length (users_tbl db') = 2"
    and o2: "users_tbl db' ! 1 = users_tbl demo_db ! 1"
    and i2: "u_id (users_tbl db' ! 0) = 1"
    unfolding db' by simp_all
  from l2 have "users_tbl db' ! 0 \<in> set (users_tbl db')" by simp
  with st i2 have p0: "u_password (users_tbl db' ! 0) = ''...$newpw''"
    unfolding hsh by blast
  from l2 have "users_tbl db' = [users_tbl db' ! 0, users_tbl db' ! 1]"
    by (cases "users_tbl db'"; cases "tl (users_tbl db')") auto
  then have "map u_password (users_tbl db') =
               [u_password (users_tbl db' ! 0), u_password (users_tbl db' ! 1)]"
    by (metis list.simps(8,9))
  with p0 o2 have pw: "map u_password (users_tbl db') = [''...$newpw'', ''..$newpw'']"
    by (simp add: demo_db_def)
  from a1 a3 pw before show ?thesis unfolding db' by simp
qed

text \<open>
  C6, as stated, quantifies over every old password. The user amy of the storage above has
  the password \<open>newpw\<close>; after \<open>update\<close> with \<open>{password: "newpw"}\<close> succeeds,
  \<open>authenticate\<close> with her old password still succeeds, since it is the new one.
\<close>

theorem update_password_equal_to_old_counterexample:
  "authenticate demo_env demo_db ''amy'' ''newpw'' =
     Inr [(''id'', SqlInt 2), (''username'', SqlText ''amy''),
          (''firstName'', SqlText ''Amy''), (''lastName'', SqlText ''Reed''),
          (''email'', SqlText ''amy@x.org'')]
   \<and> fst (update demo_env 3 demo_db 2 [(''password'', ''newpw'')]) =
     Inr [(''id'', SqlInt 2), (''firstName'', SqlText ''Amy''),
          (''lastName'', SqlText ''Reed''), (''email'', SqlText ''amy@x.org'')]
   \<and> authenticate demo_env (snd (update demo_env 3 demo_db 2 [(''password'', ''newpw'')]))
        ''amy'' ''newpw'' =
     Inr [(''id'', SqlInt 2), (''username'', SqlText ''amy''),
          (''firstName'', SqlText ''Amy''), (''lastName'', SqlText ''Reed''),
          (''email'', SqlText ''amy@x.org'')]"
proof -
  have wf: "[(''password'', ''newpw'')] \<noteq> []" "distinct (map fst [(''password'', ''newpw'')])"
    "fst ` set [(''password'', ''newpw'')] \<subseteq> updatable"
    by (simp_all add: updatable_def)
  have rh: "rehash_password demo_env 3 [(''password'', ''newpw'')] =
              [(''password'', ''...$newpw'')]"
    by (simp add: rehash_password_def demo_env_def numeral_3_eq_3)
  have ap: "apply_fields [(''password'', h)] x = x\<lparr>u_password := h\<rparr>" for x h
    by (simp add: apply_fields_def column_of_def set_column_def)
  have 1: "authenticate demo_env demo_db ''amy'' ''newpw'' =
     Inr [(''id'', SqlInt 2), (''username'', SqlText ''amy''),
          (''firstName'', SqlText ''Amy''), (''lastName'', SqlText ''Reed''),
          (''email'', SqlText ''amy@x.org'')]"
    by (simp add: authenticate_eq demo_db_def demo_env_def)
  have u: "update demo_env 3 demo_db 2 [(''password'', ''newpw'')] =
     (Inr [(''id'', SqlInt 2), (''firstName'', SqlText ''Amy''),
           (''lastName'', SqlText ''Reed''), (''email'', SqlText ''amy@x.org'')],
      demo_db\<lparr>users_tbl :=
        [\<lparr>u_id = 1, u_username = ''bob'', u_password = ''.$hunter2'',
          u_first_name = ''Bob'', u_last_name = ''Stone'', u_email = ''bob@x.org''\<rparr>,
         \<lparr>u_id = 2, u_username = ''amy'', u_password = ''...$newpw'',
          u_first_name = ''Amy'', u_last_name = ''Reed'', u_email = ''amy@x.org''\<rparr>]\<rparr>)"
    unfolding update_wellformed [OF wf] rh ap
    by (simp add: demo_db_def returning_row_def)
  have 2: "fst (update demo_env 3 demo_db 2 [(''password'', ''newpw'')]) =
     Inr [(''id'', SqlInt 2), (''firstName'', SqlText ''Amy''),
          (''lastName'', SqlText ''Reed''), (''email'', SqlText ''amy@x.org'')]"
    by (simp add: u)
  have 3: "authenticate demo_env (snd (update demo_env 3 demo_db 2 [(''password'', ''newpw'')]))
        ''amy'' ''newpw'' =
     Inr [(''id'', SqlInt 2), (''username'', SqlText ''amy''),
          (''firstName'', SqlText ''Amy''), (''lastName'', SqlText ''Reed''),
          (''email'', SqlText ''amy@x.org'')]"
    unfolding u by (simp add: authenticate_eq demo_env_def)
  from 1 2 3 show ?thesis by blast
qed

end
